theory Spec2Isabelle
  imports Main "HOL-Library.Sublist"
begin

section \<open>Data model (src/types/supabase.ts)\<close>

text \<open>
  Row types follow the interfaces of \<^verbatim>\<open>src/types/supabase.ts\<close>. Identifiers and text
  columns are strings. The timestamp columns hold ISO strings that the backend compares as
  instants; they are modelled as natural numbers (an instant on the backend's clock).
  A nullable column is an \<open>option\<close>.
\<close>

type_synonym timestamp = nat

datatype user_type = Admin | Customer

datatype ticket_status = Open | Pending | Resolved

datatype ticket_priority = Low | Medium | High

record profile =
  pid :: string
  email :: string
  full_name :: "string option"
  avatar_url :: "string option"
  user_type :: user_type
  p_created_at :: timestamp
  p_updated_at :: timestamp

record attachment =
  aid :: string
  message_id :: string
  a_name :: string
  file_path :: string
  a_size :: nat
  a_created_at :: timestamp

text \<open>
  The value of a joined field, or of a lookup \<^verbatim>\<open>obj[key]\<close> in a plain JavaScript object:
  a value of the intended kind, \<^verbatim>\<open>null\<close>, \<^verbatim>\<open>undefined\<close>, or the member of that name
  which every plain object inherits from \<^verbatim>\<open>Object.prototype\<close> (a function, and for
  \<^verbatim>\<open>__proto__\<close> the prototype object). Intended values that are objects or arrays, and
  inherited members, are truthy.
\<close>

datatype 'a js = Value 'a | Null | Undefined | Inherited string

definition object_prototype_members :: "string list" where
  "object_prototype_members =
     [''constructor'', ''__defineGetter__'', ''__defineSetter__'', ''hasOwnProperty'',
      ''__lookupGetter__'', ''__lookupSetter__'', ''isPrototypeOf'', ''propertyIsEnumerable'',
      ''toString'', ''valueOf'', ''__proto__'', ''toLocaleString'']"

text \<open>
  \<^verbatim>\<open>obj[key]\<close> for an object with the own properties \<open>m\<close> whose prototype is
  \<^verbatim>\<open>Object.prototype\<close>.
\<close>

definition js_get :: "(string \<rightharpoonup> 'a) \<Rightarrow> string \<Rightarrow> 'a js" where
  "js_get m k =
     (case m k of
        Some v \<Rightarrow> Value v
      | None \<Rightarrow> if k \<in> set object_prototype_members then Inherited k else Undefined)"

text \<open>\<^verbatim>\<open>x || null\<close> and \<^verbatim>\<open>x || []\<close> for such a value.\<close>

fun or_null :: "'a js \<Rightarrow> 'a js" where
  "or_null Undefined = Null"
| "or_null x = x"

fun or_empty :: "'a list js \<Rightarrow> 'a list js" where
  "or_empty Undefined = Value []"
| "or_empty Null = Value []"
| "or_empty x = x"

text \<open>A message row, and the same row with its joined fields \<open>sender\<close> and \<open>attachments\<close>.\<close>

record message =
  mid :: string
  ticket_id :: string
  sender_id :: string
  content :: string
  m_created_at :: timestamp

record enriched_message = message +
  sender :: "profile js"
  attachments :: "attachment list js"

text \<open>A ticket row, and the same row with its joined fields.\<close>

record ticket =
  tid :: string
  subject :: string
  customer_id :: string
  status :: ticket_status
  priority :: ticket_priority
  category :: string
  assigned_to :: "string option"
  t_created_at :: timestamp
  t_updated_at :: timestamp

text \<open>
  What the \<^verbatim>\<open>last_message\<close> field can hold: a message, or the value that one column has
  in a message (see \<open>get_last_message\<close> below). What the \<^verbatim>\<open>message_count\<close> field can
  hold: a number, or the text of an inherited member followed by a number of digits
  \<^verbatim>\<open>1\<close> (see \<open>count_messages\<close> below).
\<close>

datatype last_message_entry = Message enriched_message | Column string enriched_message

datatype count_value = Counted nat | Appended string nat

record enriched_ticket = ticket +
  customer :: "profile js"
  assigned_to_profile :: "profile js"
  messages :: "enriched_message list"
  unread :: bool
  last_message :: "last_message_entry js"
  message_count :: "count_value js"

text \<open>The text of the enumerated columns, as the backend stores and compares it.\<close>

fun user_type_str :: "user_type \<Rightarrow> string" where
  "user_type_str Admin = ''admin''"
| "user_type_str Customer = ''customer''"

fun status_str :: "ticket_status \<Rightarrow> string" where
  "status_str Open = ''open''"
| "status_str Pending = ''pending''"
| "status_str Resolved = ''resolved''"

text \<open>JavaScript truthiness of a string and of a nullable string.\<close>

definition truthy :: "string \<Rightarrow> bool" where
  "truthy s = (s \<noteq> [])"

fun truthy_opt :: "string option \<Rightarrow> bool" where
  "truthy_opt None = False"
| "truthy_opt (Some s) = truthy s"

section \<open>The backend service\<close>

text \<open>
  Modelled from the spec: the remote backend and its client (\<^verbatim>\<open>src/lib/supabase.ts\<close> and
  the service behind it) are not part of the sources. Section 6 of the specification gives
  its contract: table operations over profiles, tickets, messages and attachments
  (select with equality filter, with set-membership filter, with ordering and limit; insert;
  update), each of which reports either rows or a structured failure, among them a
  distinguishable uniqueness conflict.

  The authentication operations used here are the current-user lookup, get-current-session
  and the subscription to session changes, which lasts until it is unsubscribed.

  The model is a stub that can be scripted: the four tables, the user id in the answer of
  the current-user lookup (\<open>auth_user\<close>, \<open>None\<close> when the answer carries no user), the current
  session, the number of session-change listeners currently registered and the number of
  calls of \<^verbatim>\<open>unsubscribe\<close> so far, a clock, and a fault plan \<open>faults\<close> that says for the \<open>k\<close>-th request
  whether the backend rejects it (and with which error code), and \<open>new_ids\<close> the identifier
  it generates if that request inserts a row. Every request is appended to \<open>trace\<close>, so that
  what an operation asks of the backend can be stated.

  Under this contract a request reports its failure and never throws. A \<^verbatim>\<open>catch\<close>
  branch of the functions below is therefore reached only by an exception of the client's
  own code; the one place where such an exception arises is the grouping of attachments in
  \<^verbatim>\<open>getTicket\<close>, and that branch is part of the model.
\<close>

datatype backend_error = BackendError string

fun error_code :: "backend_error \<Rightarrow> string" where
  "error_code (BackendError c) = c"

text \<open>
  The \<^verbatim>\<open>Partial<Ticket>\<close> argument of \<^verbatim>\<open>updateTicket\<close>: each column is either absent or
  given a new value. A value given for \<^verbatim>\<open>updated_at\<close> is overwritten by the refreshed
  timestamp, so that column is not part of the record.
\<close>

record ticket_updates =
  u_subject :: "string option"
  u_customer_id :: "string option"
  u_status :: "ticket_status option"
  u_priority :: "ticket_priority option"
  u_category :: "string option"
  u_assigned_to :: "string option option"

datatype request =
    SelectProfilesEqId string
  | SelectProfileSingle string
  | SelectProfilesInId "string list"
  | InsertProfile string string user_type
  | SelectTickets "string option" "string option"
  | SelectTicketSingle string
  | InsertTicket string string ticket_priority string ticket_status
  | UpdateTicket string ticket_updates timestamp
  | SelectMessageTicketIds "string list"
  | SelectLastMessage string
  | SelectMessagesOf string
  | InsertMessage string string string
  | SelectAttachmentsIn "string list"

text \<open>The user and the session objects of the authentication client.\<close>

record supa_user =
  user_id :: string
  user_email :: "string option"

record supa_session =
  session_user :: supa_user

record backend =
  tbl_profiles :: "profile list"
  tbl_tickets :: "ticket list"
  tbl_messages :: "message list"
  tbl_attachments :: "attachment list"
  auth_user :: "string option"
  auth_session :: "supa_session option"
  subscriptions :: nat
  unsubscribe_calls :: nat
  clock :: timestamp
  new_ids :: "nat \<Rightarrow> string"
  faults :: "nat \<Rightarrow> backend_error option"
  trace :: "request list"

type_synonym 'a response = "backend_error + 'a"

text \<open>
  One round trip: the request is logged; if the fault plan rejects it, the error is the
  response and the tables are untouched; otherwise the request is executed.
\<close>

definition call ::
  "request \<Rightarrow> (backend \<Rightarrow> 'a response \<times> backend) \<Rightarrow> backend \<Rightarrow> 'a response \<times> backend" where
  "call rq exec w =
     (let k = length (trace w); w1 = w\<lparr>trace := trace w @ [rq]\<rparr>
      in case faults w k of
           Some e \<Rightarrow> (Inl e, w1)
         | None \<Rightarrow> exec w1)"

text \<open>The error a \<^verbatim>\<open>.single()\<close> request reports unless exactly one row matches.\<close>

definition not_single :: backend_error where
  "not_single = BackendError ''PGRST116''"

definition unique_violation :: backend_error where
  "unique_violation = BackendError ''23505''"

fun single :: "'a list \<Rightarrow> 'a response" where
  "single [x] = Inr x"
| "single _ = Inl not_single"

subsection \<open>Requests on profiles\<close>

definition select_profiles_eq_id :: "string \<Rightarrow> backend \<Rightarrow> profile list response \<times> backend" where
  "select_profiles_eq_id uid =
     call (SelectProfilesEqId uid)
       (\<lambda>w. (Inr (filter (\<lambda>p. pid p = uid) (tbl_profiles w)), w))"

definition select_profile_single :: "string \<Rightarrow> backend \<Rightarrow> profile response \<times> backend" where
  "select_profile_single uid =
     call (SelectProfileSingle uid)
       (\<lambda>w. (single (filter (\<lambda>p. pid p = uid) (tbl_profiles w)), w))"

definition select_profiles_in_id :: "string list \<Rightarrow> backend \<Rightarrow> profile list response \<times> backend" where
  "select_profiles_in_id ids =
     call (SelectProfilesInId ids)
       (\<lambda>w. (Inr (filter (\<lambda>p. pid p \<in> set ids) (tbl_profiles w)), w))"

text \<open>
  The insert of a profile row. The primary key is the caller's \<open>id\<close>: a second row with the
  same id is refused with the duplicate-key code. The other columns take their defaults.
\<close>

definition new_profile :: "string \<Rightarrow> string \<Rightarrow> user_type \<Rightarrow> timestamp \<Rightarrow> profile" where
  "new_profile uid em ut now =
     \<lparr>pid = uid, email = em, full_name = None, avatar_url = None, user_type = ut,
      p_created_at = now, p_updated_at = now\<rparr>"

definition insert_profile ::
  "string \<Rightarrow> string \<Rightarrow> user_type \<Rightarrow> backend \<Rightarrow> profile option response \<times> backend" where
  "insert_profile uid em ut =
     call (InsertProfile uid em ut)
       (\<lambda>w. if \<exists>p \<in> set (tbl_profiles w). pid p = uid
            then (Inl unique_violation, w)
            else (let row = new_profile uid em ut (clock w)
                  in (Inr (Some row), w\<lparr>tbl_profiles := tbl_profiles w @ [row]\<rparr>)))"

subsection \<open>Requests on tickets\<close>

text \<open>
  The list query of \<^verbatim>\<open>getTickets\<close>: all columns, newest \<^verbatim>\<open>updated_at\<close> first, with the
  optional equality filters on \<^verbatim>\<open>status\<close> and \<^verbatim>\<open>customer_id\<close> that the caller added.
\<close>

definition ticket_matches :: "string option \<Rightarrow> string option \<Rightarrow> ticket \<Rightarrow> bool" where
  "ticket_matches st owner t =
     ((case st of None \<Rightarrow> True | Some s \<Rightarrow> status_str (status t) = s) \<and>
      (case owner of None \<Rightarrow> True | Some c \<Rightarrow> customer_id t = c))"

definition select_tickets ::
  "string option \<Rightarrow> string option \<Rightarrow> backend \<Rightarrow> ticket list response \<times> backend" where
  "select_tickets st owner =
     call (SelectTickets st owner)
       (\<lambda>w. (Inr (rev (sort_key t_updated_at (filter (ticket_matches st owner) (tbl_tickets w)))),
             w))"

definition select_ticket_single :: "string \<Rightarrow> backend \<Rightarrow> ticket response \<times> backend" where
  "select_ticket_single ticketId =
     call (SelectTicketSingle ticketId)
       (\<lambda>w. (single (filter (\<lambda>t. tid t = ticketId) (tbl_tickets w)), w))"

definition new_ticket ::
  "string \<Rightarrow> string \<Rightarrow> string \<Rightarrow> ticket_priority \<Rightarrow> string \<Rightarrow> ticket_status \<Rightarrow> timestamp \<Rightarrow> ticket"
  where
  "new_ticket i subj cust prio cat st now =
     \<lparr>tid = i, subject = subj, customer_id = cust, status = st, priority = prio,
      category = cat, assigned_to = None, t_created_at = now, t_updated_at = now\<rparr>"

definition insert_ticket ::
  "string \<Rightarrow> string \<Rightarrow> ticket_priority \<Rightarrow> string \<Rightarrow> ticket_status \<Rightarrow> backend
     \<Rightarrow> ticket response \<times> backend" where
  "insert_ticket subj cust prio cat st =
     call (InsertTicket subj cust prio cat st)
       (\<lambda>w. let row = new_ticket (new_ids w (length (trace w) - 1)) subj cust prio cat st (clock w)
            in (Inr row, w\<lparr>tbl_tickets := tbl_tickets w @ [row]\<rparr>))"

definition apply_updates :: "ticket_updates \<Rightarrow> timestamp \<Rightarrow> ticket \<Rightarrow> ticket" where
  "apply_updates u now t =
     t\<lparr>subject := (case u_subject u of None \<Rightarrow> subject t | Some v \<Rightarrow> v),
       customer_id := (case u_customer_id u of None \<Rightarrow> customer_id t | Some v \<Rightarrow> v),
       status := (case u_status u of None \<Rightarrow> status t | Some v \<Rightarrow> v),
       priority := (case u_priority u of None \<Rightarrow> priority t | Some v \<Rightarrow> v),
       category := (case u_category u of None \<Rightarrow> category t | Some v \<Rightarrow> v),
       assigned_to := (case u_assigned_to u of None \<Rightarrow> assigned_to t | Some v \<Rightarrow> v),
       t_updated_at := now\<rparr>"

text \<open>
  The update of the rows with the given id, returning the updated row through
  \<^verbatim>\<open>.select().single()\<close>: an error unless exactly one row was updated.
\<close>

definition update_ticket ::
  "string \<Rightarrow> ticket_updates \<Rightarrow> timestamp \<Rightarrow> backend \<Rightarrow> ticket response \<times> backend" where
  "update_ticket ticketId u now =
     call (UpdateTicket ticketId u now)
       (\<lambda>w. let rows = map (\<lambda>t. if tid t = ticketId then apply_updates u now t else t)
                          (tbl_tickets w)
            in (single (filter (\<lambda>t. tid t = ticketId) rows), w\<lparr>tbl_tickets := rows\<rparr>))"

subsection \<open>Requests on messages and attachments\<close>

definition select_message_ticket_ids ::
  "string list \<Rightarrow> backend \<Rightarrow> string list response \<times> backend" where
  "select_message_ticket_ids ticketIds =
     call (SelectMessageTicketIds ticketIds)
       (\<lambda>w. (Inr (map ticket_id (filter (\<lambda>m. ticket_id m \<in> set ticketIds) (tbl_messages w))),
             w))"

text \<open>
  The newest message of a ticket with its sender joined in (\<^verbatim>\<open>sender:sender_id(...)\<close>),
  at most one row. The sender is \<^verbatim>\<open>null\<close> when no profile has the id. The row has no
  \<^verbatim>\<open>attachments\<close> field.
\<close>

definition join_sender :: "profile list \<Rightarrow> message \<Rightarrow> enriched_message" where
  "join_sender ps m =
     message.extend m
       (enriched_message.fields
          (case find (\<lambda>p. pid p = sender_id m) ps of None \<Rightarrow> Null | Some p \<Rightarrow> Value p)
          Undefined)"

definition select_last_message ::
  "string \<Rightarrow> backend \<Rightarrow> enriched_message list response \<times> backend" where
  "select_last_message ticketId =
     call (SelectLastMessage ticketId)
       (\<lambda>w. (Inr (map (join_sender (tbl_profiles w))
                    (take 1 (rev (sort_key m_created_at
                       (filter (\<lambda>m. ticket_id m = ticketId) (tbl_messages w)))))),
             w))"

definition select_messages_of :: "string \<Rightarrow> backend \<Rightarrow> message list response \<times> backend" where
  "select_messages_of ticketId =
     call (SelectMessagesOf ticketId)
       (\<lambda>w. (Inr (sort_key m_created_at (filter (\<lambda>m. ticket_id m = ticketId) (tbl_messages w))),
             w))"

definition new_message :: "string \<Rightarrow> string \<Rightarrow> string \<Rightarrow> string \<Rightarrow> timestamp \<Rightarrow> message" where
  "new_message i t s c now =
     \<lparr>mid = i, ticket_id = t, sender_id = s, content = c, m_created_at = now\<rparr>"

definition insert_message ::
  "string \<Rightarrow> string \<Rightarrow> string \<Rightarrow> backend \<Rightarrow> message response \<times> backend" where
  "insert_message t s c =
     call (InsertMessage t s c)
       (\<lambda>w. let row = new_message (new_ids w (length (trace w) - 1)) t s c (clock w)
            in (Inr row, w\<lparr>tbl_messages := tbl_messages w @ [row]\<rparr>))"

definition select_attachments_in ::
  "string list \<Rightarrow> backend \<Rightarrow> attachment list response \<times> backend" where
  "select_attachments_in messageIds =
     call (SelectAttachmentsIn messageIds)
       (\<lambda>w. (Inr (filter (\<lambda>a. message_id a \<in> set messageIds) (tbl_attachments w)), w))"

section \<open>Asynchronous functions\<close>

text \<open>The React state of \<^verbatim>\<open>AuthProvider\<close>, and the client: that state and the backend.\<close>

record coordinator =
  session :: "supa_session option"
  user :: "supa_user option"
  profile :: "profile option"
  userType :: "user_type option"
  isLoading :: bool
  isInitialized :: bool

type_synonym client = "coordinator \<times> backend"

text \<open>
  An \<^verbatim>\<open>async\<close> function whose awaits matter is a process: it has returned a value; or it
  calls setters of the React state and goes on; or it is suspended at an \<^verbatim>\<open>await\<close>, and
  when it is resumed it acts on the client as it is at that moment and continues up to its
  next suspension. Other code can run while a process is suspended. A resumption stands for
  the awaited request reaching the backend together with the code that runs on its answer
  up to the next \<^verbatim>\<open>await\<close>; that code decides the next request from the answer alone and
  shares nothing with other processes but the React state, so the order in which the
  requests of several processes reach the backend is any interleaving of their
  resumptions.
\<close>

datatype 'a proc =
    Return 'a
  | Sync "coordinator \<Rightarrow> coordinator" "'a proc"
  | Await "client \<Rightarrow> 'a proc \<times> client"

text \<open>
  \<^verbatim>\<open>const r = await request; k(r)\<close> for a request to the backend, and the wait for a
  timer, which leaves the client as it is.
\<close>

definition await :: "(backend \<Rightarrow> 'r \<times> backend) \<Rightarrow> ('r \<Rightarrow> 'a proc) \<Rightarrow> 'a proc" where
  "await request k = Await (\<lambda>(c, w). case request w of (r, w') \<Rightarrow> (k r, c, w'))"

definition delay :: "'a proc \<Rightarrow> 'a proc" where
  "delay p = Await (\<lambda>s. (p, s))"

text \<open>\<^verbatim>\<open>const x = await f(...); k(x)\<close> for an \<^verbatim>\<open>async\<close> function \<open>f\<close> that is a process.\<close>

primrec await_call :: "'a proc \<Rightarrow> ('a \<Rightarrow> 'b proc) \<Rightarrow> 'b proc" where
  "await_call (Return x) k = k x"
| "await_call (Sync u p) k = Sync u (await_call p k)"
| "await_call (Await f) k = Await (\<lambda>s. map_prod (\<lambda>p. await_call p k) id (f s))"

text \<open>
  Running a process: \<open>settle\<close> performs the setter calls up to the next suspension or the
  return; \<open>step\<close> resumes a suspended process once; \<open>exec\<close> runs a process to its return
  with nothing else running in between.
\<close>

primrec settle :: "'a proc \<Rightarrow> client \<Rightarrow> 'a proc \<times> client" where
  "settle (Return x) s = (Return x, s)"
| "settle (Sync u p) s = settle p (u (fst s), snd s)"
| "settle (Await f) s = (Await f, s)"

primrec step :: "'a proc \<Rightarrow> client \<Rightarrow> 'a proc \<times> client" where
  "step (Return x) s = (Return x, s)"
| "step (Sync u p) s = settle p (u (fst s), snd s)"
| "step (Await f) s = (case f s of (p, s') \<Rightarrow> settle p s')"

primrec exec :: "'a proc \<Rightarrow> client \<Rightarrow> 'a \<times> client" where
  "exec (Return x) = (\<lambda>s. (x, s))"
| "exec (Sync u p) = (\<lambda>s. exec p (u (fst s), snd s))"
| "exec (Await f) = (\<lambda>s. case map_prod exec id (f s) of (run, s') \<Rightarrow> run s')"

section \<open>Profile functions (src/lib/api.ts)\<close>

text \<open>
  \<^verbatim>\<open>getProfile\<close>: the first row with the id, or null on an error or on no row. It makes
  one request.
\<close>

definition getProfile :: "string \<Rightarrow> backend \<Rightarrow> profile option \<times> backend" where
  "getProfile userId w =
     (case select_profiles_eq_id userId w of
        (Inl e, w1) \<Rightarrow> (None, w1)
      | (Inr rows, w1) \<Rightarrow>
          (case rows of [] \<Rightarrow> (None, w1) | p # _ \<Rightarrow> (Some p, w1)))"

text \<open>
  \<^verbatim>\<open>createProfile\<close>: returns the existing profile if there is one; otherwise inserts, and on
  the duplicate-key error fetches the profile again.
\<close>

definition createProfile :: "string \<Rightarrow> string \<Rightarrow> user_type \<Rightarrow> profile option proc" where
  "createProfile userId em userType' =
     await (getProfile userId) (\<lambda>existingProfile.
       case existingProfile of
         Some p \<Rightarrow> Return (Some p)
       | None \<Rightarrow>
           await (insert_profile userId em userType') (\<lambda>r.
             case r of
               Inl e \<Rightarrow>
                 if error_code e = ''23505'' then await (getProfile userId) Return
                 else Return None
             | Inr data \<Rightarrow> Return data))"

section \<open>Ticket functions (src/lib/api.ts)\<close>

text \<open>\<^verbatim>\<open>[...new Set(xs)]\<close>: the distinct elements in the order of their first occurrence.\<close>

definition uniq :: "'a list \<Rightarrow> 'a list" where
  "uniq xs = rev (remdups (rev xs))"

text \<open>
  The lookup object built by \<^verbatim>\<open>reduce\<close> from a list of profiles: its own properties,
  keyed by id. Each step builds a new object literal with a computed key, so every id
  becomes an own property.
\<close>

definition profile_map :: "profile list \<Rightarrow> (string \<rightharpoonup> profile)" where
  "profile_map ps = fold (\<lambda>p m. m(pid p \<mapsto> p)) ps Map.empty"

definition lookup_of :: "profile list response \<Rightarrow> (string \<rightharpoonup> profile)" where
  "lookup_of r = (case r of Inl e \<Rightarrow> Map.empty | Inr ps \<Rightarrow> profile_map ps)"

text \<open>
  The own properties of \<^verbatim>\<open>messageCountMap\<close> after the loop over the fetched
  \<^verbatim>\<open>ticket_id\<close> column. One step is
  \<^verbatim>\<open>messageCountMap[ticketId] = (messageCountMap[ticketId] || 0) + 1\<close>: a stored number
  is incremented and a missing key starts at 1; but for an id that names an inherited
  member the sum is the member's text with \<^verbatim>\<open>1\<close> appended, and further steps append
  another \<^verbatim>\<open>1\<close>; and an assignment of such a text to \<^verbatim>\<open>__proto__\<close> stores nothing.
\<close>

definition count_step :: "string \<Rightarrow> (string \<rightharpoonup> count_value) \<Rightarrow> (string \<rightharpoonup> count_value)" where
  "count_step ticketId m =
     (case m ticketId of
        Some (Counted n) \<Rightarrow> m(ticketId \<mapsto> Counted (n + 1))
      | Some (Appended s j) \<Rightarrow> m(ticketId \<mapsto> Appended s (j + 1))
      | None \<Rightarrow>
          if ticketId = ''__proto__'' then m
          else if ticketId \<in> set object_prototype_members
          then m(ticketId \<mapsto> Appended ticketId 1)
          else m(ticketId \<mapsto> Counted 1))"

definition count_messages :: "string list \<Rightarrow> (string \<rightharpoonup> count_value)" where
  "count_messages ids = fold count_step ids Map.empty"

text \<open>\<^verbatim>\<open>x || 0\<close> for the value of a lookup in \<^verbatim>\<open>messageCountMap\<close>.\<close>

fun or_zero :: "count_value js \<Rightarrow> count_value js" where
  "or_zero Undefined = Value (Counted 0)"
| "or_zero Null = Value (Counted 0)"
| "or_zero (Value (Counted 0)) = Value (Counted 0)"
| "or_zero x = x"

text \<open>
  The object \<^verbatim>\<open>lastMessagesMap\<close>: its own properties, and the message that has become its
  prototype, if any. The assignment \<^verbatim>\<open>lastMessagesMap[ticketId] = lastMessages[0]\<close> stores
  an own property, except for the key \<^verbatim>\<open>__proto__\<close>, where it makes the message the
  prototype of the object.
\<close>

record last_messages_object =
  own_messages :: "string \<rightharpoonup> enriched_message"
  prototype_message :: "enriched_message option"

definition empty_object :: last_messages_object where
  "empty_object = \<lparr>own_messages = Map.empty, prototype_message = None\<rparr>"

definition set_last_message ::
  "string \<Rightarrow> enriched_message \<Rightarrow> last_messages_object \<Rightarrow> last_messages_object" where
  "set_last_message ticketId lm obj =
     (if ticketId = ''__proto__'' then obj\<lparr>prototype_message := Some lm\<rparr>
      else obj\<lparr>own_messages := (own_messages obj)(ticketId \<mapsto> lm)\<rparr>)"

text \<open>
  \<^verbatim>\<open>lastMessagesMap[key] || null\<close>: an own property; else, if a message is the prototype,
  the value of the column of that name in the message when it is truthy, and the message
  itself for \<^verbatim>\<open>__proto__\<close>; else the inherited member of that name; else null.
\<close>

definition message_columns :: "string list" where
  "message_columns =
     [''id'', ''ticket_id'', ''sender_id'', ''content'', ''created_at'', ''sender'']"

definition column_truthy :: "string \<Rightarrow> enriched_message \<Rightarrow> bool" where
  "column_truthy k m =
     (if k = ''id'' then truthy (mid m)
      else if k = ''ticket_id'' then truthy (ticket_id m)
      else if k = ''sender_id'' then truthy (sender_id m)
      else if k = ''content'' then truthy (content m)
      else if k = ''sender'' then sender m \<noteq> Null
      else True)"

definition get_last_message :: "last_messages_object \<Rightarrow> string \<Rightarrow> last_message_entry js" where
  "get_last_message obj k =
     (case own_messages obj k of
        Some m \<Rightarrow> Value (Message m)
      | None \<Rightarrow>
          (case prototype_message obj of
             None \<Rightarrow> or_null (js_get Map.empty k)
           | Some pm \<Rightarrow>
               if k \<in> set message_columns
               then (if column_truthy k pm then Value (Column k pm) else Null)
               else if k = ''__proto__'' then Value (Message pm)
               else or_null (js_get Map.empty k)))"

text \<open>The loop that fetches the last message of each ticket, one request per ticket.\<close>

fun last_messages ::
  "string list \<Rightarrow> last_messages_object \<Rightarrow> backend \<Rightarrow> last_messages_object \<times> backend" where
  "last_messages [] obj w = (obj, w)"
| "last_messages (ticketId # rest) obj w =
     (case select_last_message ticketId w of
        (Inr (lm # _), w1) \<Rightarrow> last_messages rest (set_last_message ticketId lm obj) w1
      | (_, w1) \<Rightarrow> last_messages rest obj w1)"

text \<open>The ids of the assignees: the truthy \<^verbatim>\<open>assigned_to\<close> values.\<close>

definition assigned_id :: "ticket \<Rightarrow> string option" where
  "assigned_id t =
     (case assigned_to t of None \<Rightarrow> None | Some a \<Rightarrow> if truthy a then Some a else None)"

text \<open>
  The decoration of one ticket in the result of \<^verbatim>\<open>getTickets\<close>. The customer is the
  plain lookup \<^verbatim>\<open>customerMap[ticket.customer_id]\<close>, with no default.
\<close>

definition decorate ::
  "(string \<rightharpoonup> profile) \<Rightarrow> (string \<rightharpoonup> profile) \<Rightarrow> (string \<rightharpoonup> count_value)
     \<Rightarrow> last_messages_object \<Rightarrow> ticket \<Rightarrow> enriched_ticket" where
  "decorate customerMap assignedMap messageCountMap lastMessagesMap t =
     ticket.extend t
       (enriched_ticket.fields
          (js_get customerMap (customer_id t))
          (case assigned_id t of None \<Rightarrow> Null | Some a \<Rightarrow> js_get assignedMap a)
          []
          False
          (get_last_message lastMessagesMap (tid t))
          (or_zero (js_get messageCountMap (tid t))))"

text \<open>
  \<^verbatim>\<open>getTickets(userType, status)\<close>. The status filter is added when the argument is
  given, non-empty and not \<^verbatim>\<open>'all'\<close>. For the customer role the owner filter is added when
  the current-user lookup yields a truthy id.
\<close>

definition status_filter :: "string option \<Rightarrow> string option" where
  "status_filter st =
     (case st of None \<Rightarrow> None | Some s \<Rightarrow> if truthy s \<and> s \<noteq> ''all'' then Some s else None)"

definition owner_filter :: "user_type option \<Rightarrow> backend \<Rightarrow> string option" where
  "owner_filter userType' w =
     (if userType' = Some Customer
      then (case auth_user w of None \<Rightarrow> None | Some uid \<Rightarrow> if truthy uid then Some uid else None)
      else None)"

definition getTickets ::
  "user_type option \<Rightarrow> string option \<Rightarrow> backend \<Rightarrow> enriched_ticket list \<times> backend" where
  "getTickets userType' st w =
     (case select_tickets (status_filter st) (owner_filter userType' w) w of
        (Inl e, w1) \<Rightarrow> ([], w1)
      | (Inr tickets, w1) \<Rightarrow>
          if tickets = [] then ([], w1)
          else
            let customerIds = uniq (map customer_id tickets);
                (customers, w2) = select_profiles_in_id customerIds w1;
                assignedToIds = uniq (List.map_filter assigned_id tickets);
                (assignedProfiles, w3) =
                   (if assignedToIds \<noteq> [] then select_profiles_in_id assignedToIds w2
                    else (Inr [], w2));
                customerMap = lookup_of customers;
                assignedMap = lookup_of assignedProfiles;
                ticketIds = map tid tickets;
                (msgs, w4) = select_message_ticket_ids ticketIds w3;
                messageCountMap = (case msgs of Inl e \<Rightarrow> Map.empty | Inr ids \<Rightarrow> count_messages ids);
                (lastMessagesMap, w5) = last_messages ticketIds empty_object w4
            in (map (decorate customerMap assignedMap messageCountMap lastMessagesMap) tickets,
                w5))"

text \<open>
  The attachments grouped by message id, in the order fetched. One step of the
  \<^verbatim>\<open>reduce\<close> takes \<^verbatim>\<open>map[attachment.message_id] || []\<close> and spreads it into a new array.
  For a message id that names an inherited member and is not yet an own property, that
  value is the member, which cannot be spread: a \<^verbatim>\<open>TypeError\<close> is thrown.
\<close>

datatype js_exception = TypeError

fun group_attachments_from ::
  "attachment list \<Rightarrow> (string \<rightharpoonup> attachment list)
     \<Rightarrow> js_exception + (string \<rightharpoonup> attachment list)" where
  "group_attachments_from [] m = Inr m"
| "group_attachments_from (a # as) m =
     (case m (message_id a) of
        Some xs \<Rightarrow> group_attachments_from as (m(message_id a \<mapsto> xs @ [a]))
      | None \<Rightarrow>
          if message_id a \<in> set object_prototype_members then Inl TypeError
          else group_attachments_from as (m(message_id a \<mapsto> [a])))"

definition group_attachments ::
  "attachment list \<Rightarrow> js_exception + (string \<rightharpoonup> attachment list)" where
  "group_attachments as = group_attachments_from as Map.empty"

text \<open>
  A message with \<^verbatim>\<open>senderProfiles[message.sender_id] || null\<close> and
  \<^verbatim>\<open>attachmentsByMessage[message.id] || []\<close>.
\<close>

definition enrich_message ::
  "(string \<rightharpoonup> profile) \<Rightarrow> (string \<rightharpoonup> attachment list) \<Rightarrow> message \<Rightarrow> enriched_message" where
  "enrich_message senderProfiles attachmentsByMessage m =
     message.extend m
       (enriched_message.fields
          (or_null (js_get senderProfiles (sender_id m)))
          (or_empty (js_get attachmentsByMessage (mid m))))"

text \<open>
  The two lookups of \<^verbatim>\<open>getTicket\<close> for a non-empty message list; a failed lookup leaves
  its object empty.
\<close>

definition fetch_senders ::
  "message list \<Rightarrow> backend \<Rightarrow> (string \<rightharpoonup> profile) \<times> backend" where
  "fetch_senders ms w =
     (if ms \<noteq> []
      then (case select_profiles_in_id (uniq (map sender_id ms)) w of
              (r, w1) \<Rightarrow> (lookup_of r, w1))
      else (Map.empty, w))"

definition fetch_attachments ::
  "message list \<Rightarrow> backend \<Rightarrow> (js_exception + (string \<rightharpoonup> attachment list)) \<times> backend" where
  "fetch_attachments ms w =
     (if ms \<noteq> []
      then (case select_attachments_in (map mid ms) w of
              (Inl e, w1) \<Rightarrow> (Inr Map.empty, w1)
            | (Inr as, w1) \<Rightarrow> (group_attachments as, w1))
      else (Inr Map.empty, w))"

definition fetch_assigned :: "ticket \<Rightarrow> backend \<Rightarrow> profile js \<times> backend" where
  "fetch_assigned t w =
     (case assigned_id t of
        None \<Rightarrow> (Null, w)
      | Some a \<Rightarrow>
          (case select_profile_single a w of
             (Inl e, w1) \<Rightarrow> (Null, w1)
           | (Inr p, w1) \<Rightarrow> (Value p, w1)))"

text \<open>
  \<^verbatim>\<open>getTicket(ticketId)\<close>: null when the ticket row cannot be fetched; the customer, the
  assignee, the messages, the senders and the attachments degrade to null or empty. The
  exception of the grouping of attachments is caught by the function's \<^verbatim>\<open>catch\<close>, which
  returns null. The result has no \<^verbatim>\<open>last_message\<close> and no \<^verbatim>\<open>message_count\<close>.
\<close>

definition getTicket :: "string \<Rightarrow> backend \<Rightarrow> enriched_ticket option \<times> backend" where
  "getTicket ticketId w =
     (case select_ticket_single ticketId w of
        (Inl e, w1) \<Rightarrow> (None, w1)
      | (Inr t, w1) \<Rightarrow>
          let (customerR, w2) = select_profile_single (customer_id t) w1;
              customer = (case customerR of Inl e \<Rightarrow> Null | Inr p \<Rightarrow> Value p);
              (assignedProfile, w3) = fetch_assigned t w2;
              (messagesR, w4) = select_messages_of ticketId w3;
              msgs = (case messagesR of Inl e \<Rightarrow> [] | Inr ms \<Rightarrow> ms);
              (senderProfiles, w5) = fetch_senders msgs w4;
              (grouped, w6) = fetch_attachments msgs w5
          in (case grouped of
                Inl thrown \<Rightarrow> (None, w6)
              | Inr attachmentsByMessage \<Rightarrow>
                  (Some (ticket.extend t
                           (enriched_ticket.fields customer assignedProfile
                              (map (enrich_message senderProfiles attachmentsByMessage) msgs)
                              False Undefined Undefined)),
                   w6)))"

text \<open>
  \<^verbatim>\<open>createTicket\<close>: inserts the ticket with status \<^verbatim>\<open>'open'\<close>; then, for a non-empty
  initial message, inserts the message and ignores a failure of that insert.
\<close>

definition createTicket ::
  "string \<Rightarrow> string \<Rightarrow> ticket_priority \<Rightarrow> string \<Rightarrow> string \<Rightarrow> backend
     \<Rightarrow> ticket option \<times> backend" where
  "createTicket subj customerId prio cat initialMessage w =
     (case insert_ticket subj customerId prio cat Open w of
        (Inl e, w1) \<Rightarrow> (None, w1)
      | (Inr t, w1) \<Rightarrow>
          if truthy initialMessage
          then (case insert_message (tid t) customerId initialMessage w1 of
                  (messageR, w2) \<Rightarrow> (Some t, w2))
          else (Some t, w1))"

text \<open>\<^verbatim>\<open>updateTicket\<close>: the given columns plus \<^verbatim>\<open>updated_at\<close> set to the current time.\<close>

definition updateTicket ::
  "string \<Rightarrow> ticket_updates \<Rightarrow> backend \<Rightarrow> ticket option \<times> backend" where
  "updateTicket ticketId updates w =
     (case update_ticket ticketId updates (clock w) w of
        (Inl e, w1) \<Rightarrow> (None, w1)
      | (Inr data, w1) \<Rightarrow> (Some data, w1))"

text \<open>The empty object \<^verbatim>\<open>{}\<close> as an update.\<close>

definition no_updates :: ticket_updates where
  "no_updates =
     \<lparr>u_subject = None, u_customer_id = None, u_status = None, u_priority = None,
      u_category = None, u_assigned_to = None\<rparr>"

text \<open>
  \<^verbatim>\<open>createMessage\<close>: inserts the message, then calls \<^verbatim>\<open>updateTicket(ticketId, {})\<close> and
  discards its result.
\<close>

definition createMessage ::
  "string \<Rightarrow> string \<Rightarrow> string \<Rightarrow> backend \<Rightarrow> message option \<times> backend" where
  "createMessage ticketId senderId cont w =
     (case insert_message ticketId senderId cont w of
        (Inl e, w1) \<Rightarrow> (None, w1)
      | (Inr data, w1) \<Rightarrow>
          (case updateTicket ticketId no_updates w1 of
             (updated, w2) \<Rightarrow> (Some data, w2)))"

section \<open>Session coordinator (AuthProvider)\<close>

definition isAuthenticated :: "coordinator \<Rightarrow> bool" where
  "isAuthenticated c = (session c \<noteq> None \<and> user c \<noteq> None)"

text \<open>\<^verbatim>\<open>setProfile(p); setUserType(p.user_type)\<close>.\<close>

definition adopt :: "profile \<Rightarrow> coordinator \<Rightarrow> coordinator" where
  "adopt p c = c\<lparr>profile := Some p, userType := Some (user_type p)\<rparr>"

text \<open>The initial values of the state (\<^verbatim>\<open>useState\<close>).\<close>

definition initial_coordinator :: coordinator where
  "initial_coordinator =
     \<lparr>session = None, user = None, profile = None, userType = None,
      isLoading = True, isInitialized = False\<rparr>"

text \<open>
  \<^verbatim>\<open>fetchOrCreateProfile(userId, userEmail)\<close>: after a short delay, fetch; if there is no
  profile and the email is truthy, create a customer profile; if that yields nothing, fetch
  once more. A profile that is found or created is stored in the state before it is
  returned.
\<close>

definition fetchOrCreateProfile :: "string \<Rightarrow> string option \<Rightarrow> profile option proc" where
  "fetchOrCreateProfile userId userEmail =
     delay
       (await (getProfile userId) (\<lambda>userProfile.
          case userProfile of
            Some p \<Rightarrow> Sync (adopt p) (Return (Some p))
          | None \<Rightarrow>
              (case userEmail of
                 None \<Rightarrow> Return None
               | Some em \<Rightarrow>
                   if truthy em
                   then await_call (createProfile userId em Customer) (\<lambda>newProfile.
                          case newProfile of
                            Some p \<Rightarrow> Sync (adopt p) (Return (Some p))
                          | None \<Rightarrow>
                              await (getProfile userId) (\<lambda>retryProfile.
                                case retryProfile of
                                  Some p \<Rightarrow> Sync (adopt p) (Return (Some p))
                                | None \<Rightarrow> Return None))
                   else Return None)))"

text \<open>
  Two resolutions of the same user, interleaved by a schedule: \<open>True\<close> resumes the first
  caller, \<open>False\<close> the second. They share the React state and the backend.
\<close>

fun interleave ::
  "bool list \<Rightarrow> 'a proc \<times> 'a proc \<times> client \<Rightarrow> 'a proc \<times> 'a proc \<times> client" where
  "interleave [] cfg = cfg"
| "interleave (b # bs) (pa, pb, s) =
     (if b
      then (case step pa s of (pa', s') \<Rightarrow> interleave bs (pa', pb, s'))
      else (case step pb s of (pb', s') \<Rightarrow> interleave bs (pa, pb', s')))"

subsection \<open>Initialization and the session-change subscription\<close>

text \<open>
  The function that \<^verbatim>\<open>initializeAuth\<close> returns after subscribing: calling it unsubscribes.
\<close>

datatype cleanup = Unsubscribe

text \<open>
  \<^verbatim>\<open>initializeAuth\<close>: reads the current session, resolves the profile of its user, marks
  the coordinator ready, registers the session-change listener, and returns the function
  that unsubscribes it.
\<close>

definition initializeAuth ::
  "coordinator \<times> backend \<Rightarrow> cleanup option \<times> coordinator \<times> backend" where
  "initializeAuth cw =
     (case cw of (c, w) \<Rightarrow>
        let currentSession = auth_session w;
            c1 = c\<lparr>session := currentSession,
                   user := map_option session_user currentSession\<rparr>;
            (c2, w2) =
               (case currentSession of
                  None \<Rightarrow> (c1, w)
                | Some s \<Rightarrow>
                    (case exec (fetchOrCreateProfile (user_id (session_user s))
                                  (user_email (session_user s))) (c1, w) of
                       (resolved, cw') \<Rightarrow> cw'));
            c3 = c2\<lparr>isInitialized := True, isLoading := False\<rparr>;
            w3 = w2\<lparr>subscriptions := subscriptions w2 + 1\<rparr>
        in (Some Unsubscribe, c3, w3))"

text \<open>
  The effect that runs at mount: it calls \<^verbatim>\<open>initializeAuth()\<close> and does nothing with the
  promise; the effect callback has no \<^verbatim>\<open>return\<close>, so what it hands to React as its cleanup
  is \<^verbatim>\<open>undefined\<close>.
\<close>

definition auth_effect ::
  "coordinator \<times> backend \<Rightarrow> cleanup option \<times> coordinator \<times> backend" where
  "auth_effect cw =
     (case initializeAuth cw of (returned, cw') \<Rightarrow> (None, cw'))"

text \<open>
  Modelled from the spec: the teardown of the component is done by the UI framework, which
  is not part of the sources; section 9 of the specification models the subscription as
  returning a cancellation handle that is to be invoked at teardown. At teardown the
  framework calls the cleanup function that the effect callback returned, if it returned
  one.
\<close>

fun run_cleanup :: "cleanup option \<Rightarrow> backend \<Rightarrow> backend" where
  "run_cleanup None w = w"
| "run_cleanup (Some Unsubscribe) w =
     w\<lparr>subscriptions := subscriptions w - 1, unsubscribe_calls := unsubscribe_calls w + 1\<rparr>"

definition mount_then_teardown :: "coordinator \<times> backend \<Rightarrow> coordinator \<times> backend" where
  "mount_then_teardown cw =
     (case auth_effect cw of (cl, c', w') \<Rightarrow> (c', run_cleanup cl w'))"

subsection \<open>Navigation\<close>

text \<open>
  The path is taken from the hash of the location: the first \<^verbatim>\<open>#\<close> is removed, and an
  empty result stands for the root.
\<close>

definition pathname_of_hash :: "string \<Rightarrow> string" where
  "pathname_of_hash hash =
     (let hashPath = remove1 (CHR ''#'') hash in if truthy hashPath then hashPath else ''/'')"

text \<open>
  The navigation effect: the target of the \<^verbatim>\<open>navigate\<close> call it makes, if it makes one.
\<close>

definition navigation :: "coordinator \<Rightarrow> string \<Rightarrow> string option" where
  "navigation c hash =
     (if \<not> isInitialized c \<or> isLoading c then None
      else
        let pathname = pathname_of_hash hash
        in if \<not> isAuthenticated c \<and> \<not> prefix ''/register'' pathname \<and>
              \<not> prefix ''/forgot-password'' pathname \<and> pathname \<noteq> ''/''
           then Some ''/''
           else
             (case userType c of
                None \<Rightarrow> None
              | Some ut \<Rightarrow>
                  if isAuthenticated c \<and> pathname = ''/'' then Some (''/'' @ user_type_str ut)
                  else if isAuthenticated c
                  then (if ut = Admin \<and> \<not> prefix ''/admin'' pathname then Some ''/admin''
                        else if ut = Customer \<and> \<not> prefix ''/customer'' pathname
                        then Some ''/customer''
                        else None)
                  else None))"

section \<open>Definitions used to state the properties\<close>

text \<open>The rows that the list query of \<^verbatim>\<open>getTickets\<close> returns when it is answered.\<close>

definition fetched_tickets :: "user_type option \<Rightarrow> string option \<Rightarrow> backend \<Rightarrow> ticket list" where
  "fetched_tickets role st w =
     rev (sort_key t_updated_at
            (filter (ticket_matches (status_filter st) (owner_filter role w)) (tbl_tickets w)))"

text \<open>The rows that the message query of \<^verbatim>\<open>getTicket\<close> returns when it is answered.\<close>

definition fetched_messages :: "string \<Rightarrow> backend \<Rightarrow> message list" where
  "fetched_messages ticketId w =
     sort_key m_created_at (filter (\<lambda>m. ticket_id m = ticketId) (tbl_messages w))"

text \<open>
  The navigation rule in words: a path is public if it is the root or begins with
  \<^verbatim>\<open>/register\<close> or \<^verbatim>\<open>/forgot-password\<close>; a path falls under a role if it begins with
  \<^verbatim>\<open>/\<close> followed by the role. An unauthenticated visitor of a path that is not public is
  sent to the root; an authenticated user with a resolved role who is at the root or at a
  path that does not fall under the role is sent to the role's path; otherwise nothing
  happens.
\<close>

definition public_path :: "string \<Rightarrow> bool" where
  "public_path path =
     (path = ''/'' \<or> prefix ''/register'' path \<or> prefix ''/forgot-password'' path)"

definition under_role :: "user_type \<Rightarrow> string \<Rightarrow> bool" where
  "under_role r path = prefix (''/'' @ user_type_str r) path"

definition intent_by_prefix :: "bool \<Rightarrow> user_type option \<Rightarrow> string \<Rightarrow> string option" where
  "intent_by_prefix authenticated role path =
     (if \<not> authenticated \<and> \<not> public_path path then Some ''/''
      else (case role of
              None \<Rightarrow> None
            | Some r \<Rightarrow>
                if authenticated \<and> (path = ''/'' \<or> \<not> under_role r path)
                then Some (''/'' @ user_type_str r)
                else None))"

subsection \<open>The stages of a profile resolution\<close>

text \<open>
  For a user id and a truthy email, the points at which \<^verbatim>\<open>fetchOrCreateProfile\<close> (with
  \<^verbatim>\<open>createProfile\<close> inside it) is suspended: waiting for the timer; before its first
  fetch; inside \<^verbatim>\<open>createProfile\<close> before the existence check, before the insert, and
  before the fetch that follows a duplicate-key error; before the last-resort fetch; and
  returned. \<open>stage_step\<close> says what resuming at a stage does, and \<open>residual\<close> is the rest
  of the process at a stage; the two are shown to agree below.
\<close>

datatype stage =
    Waiting | FetchProfile | CreateCheck | CreateInsert | CreateRefetch | RetryFetch
  | Returned "profile option"

fun stage_step :: "string \<Rightarrow> string \<Rightarrow> stage \<Rightarrow> client \<Rightarrow> stage \<times> client" where
  "stage_step uid em Waiting (c, w) = (FetchProfile, c, w)"
| "stage_step uid em FetchProfile (c, w) =
     (case getProfile uid w of
        (Some p, w1) \<Rightarrow> (Returned (Some p), adopt p c, w1)
      | (None, w1) \<Rightarrow> (CreateCheck, c, w1))"
| "stage_step uid em CreateCheck (c, w) =
     (case getProfile uid w of
        (Some p, w1) \<Rightarrow> (Returned (Some p), adopt p c, w1)
      | (None, w1) \<Rightarrow> (CreateInsert, c, w1))"
| "stage_step uid em CreateInsert (c, w) =
     (case insert_profile uid em Customer w of
        (Inl e, w1) \<Rightarrow>
          if error_code e = ''23505'' then (CreateRefetch, c, w1) else (RetryFetch, c, w1)
      | (Inr None, w1) \<Rightarrow> (RetryFetch, c, w1)
      | (Inr (Some p), w1) \<Rightarrow> (Returned (Some p), adopt p c, w1))"
| "stage_step uid em CreateRefetch (c, w) =
     (case getProfile uid w of
        (Some p, w1) \<Rightarrow> (Returned (Some p), adopt p c, w1)
      | (None, w1) \<Rightarrow> (RetryFetch, c, w1))"
| "stage_step uid em RetryFetch (c, w) =
     (case getProfile uid w of
        (Some p, w1) \<Rightarrow> (Returned (Some p), adopt p c, w1)
      | (None, w1) \<Rightarrow> (Returned None, c, w1))"
| "stage_step uid em (Returned r) (c, w) = (Returned r, c, w)"

definition after_create :: "string \<Rightarrow> profile option \<Rightarrow> profile option proc" where
  "after_create uid =
     (\<lambda>newProfile.
        case newProfile of
          Some p \<Rightarrow> Sync (adopt p) (Return (Some p))
        | None \<Rightarrow>
            await (getProfile uid) (\<lambda>retryProfile.
              case retryProfile of
                Some p \<Rightarrow> Sync (adopt p) (Return (Some p))
              | None \<Rightarrow> Return None))"

fun residual :: "string \<Rightarrow> string \<Rightarrow> stage \<Rightarrow> profile option proc" where
  "residual uid em Waiting = fetchOrCreateProfile uid (Some em)"
| "residual uid em FetchProfile =
     await (getProfile uid) (\<lambda>userProfile.
       case userProfile of
         Some p \<Rightarrow> Sync (adopt p) (Return (Some p))
       | None \<Rightarrow> await_call (createProfile uid em Customer) (after_create uid))"
| "residual uid em CreateCheck = await_call (createProfile uid em Customer) (after_create uid)"
| "residual uid em CreateInsert =
     await (insert_profile uid em Customer) (\<lambda>r.
       await_call
         (case r of
            Inl e \<Rightarrow>
              if error_code e = ''23505'' then await (getProfile uid) Return else Return None
          | Inr data \<Rightarrow> Return data)
         (after_create uid))"
| "residual uid em CreateRefetch =
     await (getProfile uid) (\<lambda>x. after_create uid x)"
| "residual uid em RetryFetch = after_create uid None"
| "residual uid em (Returned r) = Return r"

text \<open>
  For two racing resolutions of a user without a profile: the rows of the user, the number
  of times a resolution at a stage can still be resumed, and the invariant of the race.
  With \<open>strict\<close> the backend rejects nothing, and a resolution is on track if it has not
  inserted yet, or is about to fetch the row that was inserted, or has returned that row;
  without it, a resolution may also be at its last-resort fetch or have returned nothing.
\<close>

definition rows_of :: "string \<Rightarrow> backend \<Rightarrow> profile list" where
  "rows_of uid w = filter (\<lambda>p. pid p = uid) (tbl_profiles w)"

fun rank :: "stage \<Rightarrow> nat" where
  "rank Waiting = 6"
| "rank FetchProfile = 5"
| "rank CreateCheck = 4"
| "rank CreateInsert = 3"
| "rank CreateRefetch = 2"
| "rank RetryFetch = 1"
| "rank (Returned x) = 0"

fun on_track :: "bool \<Rightarrow> string \<Rightarrow> profile \<Rightarrow> backend \<Rightarrow> stage \<Rightarrow> bool" where
  "on_track strict uid p0 w CreateRefetch = (strict \<longrightarrow> rows_of uid w = [p0])"
| "on_track strict uid p0 w RetryFetch = (\<not> strict)"
| "on_track strict uid p0 w (Returned x) =
     ((x = Some p0 \<and> rows_of uid w = [p0]) \<or> (x = None \<and> \<not> strict))"
| "on_track strict uid p0 w g = True"

fun has_profile :: "stage \<Rightarrow> bool" where
  "has_profile (Returned (Some p)) = True"
| "has_profile g = False"

definition race_inv ::
  "bool \<Rightarrow> string \<Rightarrow> string \<Rightarrow> profile \<Rightarrow> stage \<times> stage \<times> client \<Rightarrow> bool" where
  "race_inv strict uid em p0 cfg =
     (case cfg of (ga, gb, c, w) \<Rightarrow>
        (strict \<longrightarrow> (\<forall>k. faults w k = None)) \<and>
        p0 = new_profile uid em Customer (clock w) \<and>
        (rows_of uid w = [] \<or> rows_of uid w = [p0]) \<and>
        on_track strict uid p0 w ga \<and> on_track strict uid p0 w gb \<and>
        ((has_profile ga \<or> has_profile gb) \<longrightarrow> profile c = Some p0))"

section \<open>Example data\<close>

text \<open>A small backend used to evaluate the operations at concrete inputs.\<close>

definition alice :: profile where
  "alice = \<lparr>pid = ''u1'', email = ''alice@example.org'', full_name = None, avatar_url = None,
            user_type = Customer, p_created_at = 1, p_updated_at = 1\<rparr>"

definition bob :: profile where
  "bob = \<lparr>pid = ''u2'', email = ''bob@example.org'', full_name = None, avatar_url = None,
          user_type = Customer, p_created_at = 1, p_updated_at = 1\<rparr>"

definition ticket1 :: ticket where
  "ticket1 = \<lparr>tid = ''t1'', subject = ''Printer'', customer_id = ''u1'', status = Open,
              priority = Low, category = ''hardware'', assigned_to = None,
              t_created_at = 2, t_updated_at = 5\<rparr>"

definition ticket2 :: ticket where
  "ticket2 = \<lparr>tid = ''t2'', subject = ''Invoice'', customer_id = ''u2'', status = Pending,
              priority = High, category = ''billing'', assigned_to = None,
              t_created_at = 3, t_updated_at = 7\<rparr>"

definition message1 :: message where
  "message1 = \<lparr>mid = ''m1'', ticket_id = ''t1'', sender_id = ''u1'', content = ''It is broken'',
               m_created_at = 4\<rparr>"

definition message2 :: message where
  "message2 = \<lparr>mid = ''m2'', ticket_id = ''t1'', sender_id = ''u2'', content = ''Same here'',
               m_created_at = 3\<rparr>"

definition message3 :: message where
  "message3 = \<lparr>mid = ''m3'', ticket_id = ''t2'', sender_id = ''u2'', content = ''Wrong total'',
               m_created_at = 6\<rparr>"

definition demo :: backend where
  "demo = \<lparr>tbl_profiles = [alice, bob], tbl_tickets = [ticket1, ticket2],
           tbl_messages = [message1, message2, message3], tbl_attachments = [],
           auth_user = Some ''u1'', auth_session = None, subscriptions = 0,
           unsubscribe_calls = 0, clock = 10, new_ids = (\<lambda>k. ''n1''),
           faults = (\<lambda>k. None), trace = []\<rparr>"

text \<open>The same backend, rejecting the second request it receives.\<close>

definition demo_reject_second :: backend where
  "demo_reject_second =
     demo\<lparr>faults := (\<lambda>k. if k = 1 then Some (BackendError ''500'') else None)\<rparr>"

text \<open>The same backend when the current-user lookup yields no user.\<close>

definition demo_no_user :: backend where
  "demo_no_user = demo\<lparr>auth_user := None\<rparr>"

text \<open>Coordinator states that are ready: nobody signed in, and a user with a role.\<close>

definition anonymous :: coordinator where
  "anonymous = \<lparr>session = None, user = None, profile = None, userType = None,
                isLoading = False, isInitialized = True\<rparr>"

definition signed_in :: "user_type \<Rightarrow> coordinator" where
  "signed_in r =
     \<lparr>session = Some \<lparr>session_user = \<lparr>user_id = ''u1'', user_email = Some ''alice@example.org''\<rparr>\<rparr>,
      user = Some \<lparr>user_id = ''u1'', user_email = Some ''alice@example.org''\<rparr>,
      profile = Some (alice\<lparr>user_type := r\<rparr>), userType = Some r,
      isLoading = False, isInitialized = True\<rparr>"

text \<open>The same backend, rejecting its first request, and rejecting every request.\<close>

definition demo_reject_first :: backend where
  "demo_reject_first =
     demo\<lparr>faults := (\<lambda>k. if k = 0 then Some (BackendError ''500'') else None)\<rparr>"

definition demo_reject_all :: backend where
  "demo_reject_all = demo\<lparr>faults := (\<lambda>k. Some (BackendError ''500''))\<rparr>"

text \<open>A user who has signed in for the first time and has no profile yet.\<close>

definition carol_session :: supa_session where
  "carol_session =
     \<lparr>session_user = \<lparr>user_id = ''u3'', user_email = Some ''carol@example.org''\<rparr>\<rparr>"

definition demo_signed_in :: backend where
  "demo_signed_in = demo\<lparr>auth_user := Some ''u3'', auth_session := Some carol_session\<rparr>"

definition carol :: profile where
  "carol = new_profile ''u3'' ''carol@example.org'' Customer 10"

text \<open>
  A schedule in which both callers wait, both fetch, both check, the first inserts, and the
  second inserts after it; and the backend that rejects the two fetches the second caller
  makes after its insert.
\<close>

definition race_schedule :: "bool list" where
  "race_schedule =
     [True, False, True, False, True, False, True, False, False, False, True, True]"

definition demo_refetch_rejected :: backend where
  "demo_refetch_rejected =
     demo\<lparr>faults := (\<lambda>k. if k = 6 \<or> k = 7 then Some (BackendError ''500'') else None)\<rparr>"




section \<open>Properties of processes and of the profile functions\<close>

lemma find_as_filter:
  "find P xs = (case filter P xs of [] \<Rightarrow> None | p # _ \<Rightarrow> Some p)"
  by (induction xs) auto

lemma getProfile_eq:
  "getProfile u w =
     (if faults w (length (trace w)) = None then find (\<lambda>p. pid p = u) (tbl_profiles w) else None,
      w\<lparr>trace := trace w @ [SelectProfilesEqId u]\<rparr>)"
  by (simp add: getProfile_def select_profiles_eq_id_def call_def Let_def find_as_filter
           split: option.splits list.splits)

lemma insert_profile_eq:
  "insert_profile u em ut w =
     (case faults w (length (trace w)) of
        Some e \<Rightarrow> (Inl e, w\<lparr>trace := trace w @ [InsertProfile u em ut]\<rparr>)
      | None \<Rightarrow>
          if find (\<lambda>p. pid p = u) (tbl_profiles w) \<noteq> None
          then (Inl unique_violation, w\<lparr>trace := trace w @ [InsertProfile u em ut]\<rparr>)
          else (Inr (Some (new_profile u em ut (clock w))),
                w\<lparr>trace := trace w @ [InsertProfile u em ut],
                  tbl_profiles := tbl_profiles w @ [new_profile u em ut (clock w)]\<rparr>))"
  by (auto simp: insert_profile_def call_def Let_def find_None_iff split: option.splits)

lemma exec_await:
  "exec (await request k) (c, w) = (case request w of (r, w') \<Rightarrow> exec (k r) (c, w'))"
  by (simp add: await_def split: prod.splits)

lemma exec_delay: "exec (delay p) s = exec p s"
  by (simp add: delay_def)

lemma exec_await_call:
  "exec (await_call p k) s = (case exec p s of (x, s') \<Rightarrow> exec (k x) s')"
proof (induction p arbitrary: s)
  case (Return x)
  show ?case by simp
next
  case (Sync u p)
  then show ?case by simp
next
  case (Await f)
  obtain p' s' where fs: "f s = (p', s')" by (cases "f s")
  then have mem: "p' \<in> Basic_BNFs.fsts (f s)" by simp
  have "f s \<in> range f" by simp
  from Await.IH [OF this mem]
  have "exec (await_call p' k) s' = (case exec p' s' of (x, s'') \<Rightarrow> exec (k x) s'')" .
  with fs show ?case by simp
qed

lemma step_await:
  "step (await request k) (c, w) = (case request w of (r, w') \<Rightarrow> settle (k r) (c, w'))"
  by (simp add: await_def split: prod.splits)

lemma step_delay: "step (delay p) s = settle p s"
  by (simp add: delay_def)

text \<open>
  Claim C10, as amended. If a profile row with the user's id exists and the existence check
  of \<^verbatim>\<open>createProfile\<close> is answered, \<^verbatim>\<open>createProfile\<close> returns the stored row after that
  single select: the client is unchanged but for the logged select, so no insert and no
  update is made. The requested role plays no part in the result: the role is the stored
  one.
\<close>

theorem createProfile_existing:
  assumes "find (\<lambda>p. pid p = userId) (tbl_profiles w) = Some row"
    and "faults w (length (trace w)) = None"
  shows "exec (createProfile userId em ut) (c, w) =
           (Some row, c, w\<lparr>trace := trace w @ [SelectProfilesEqId userId]\<rparr>)"
  using assms by (simp add: createProfile_def exec_await getProfile_eq)

theorem createProfile_existing_witness:
  "find (\<lambda>p. pid p = ''u1'') (tbl_profiles demo) = Some alice \<and>
   faults demo (length (trace demo)) = None \<and>
   exec (createProfile ''u1'' ''alice@example.org'' Admin) (initial_coordinator, demo) =
     (Some alice, initial_coordinator, demo\<lparr>trace := trace demo @ [SelectProfilesEqId ''u1'']\<rparr>) \<and>
   user_type alice = Customer"
  using createProfile_existing [of "''u1''" demo alice "''alice@example.org''" Admin
      initial_coordinator]
  by (simp add: demo_def alice_def bob_def)

text \<open>
  Claim C10 as it is stated fails. The row of \<^verbatim>\<open>u1\<close> exists; when the existence check
  is rejected, \<^verbatim>\<open>createProfile\<close> sends an insert for \<^verbatim>\<open>u1\<close> all the same, and when
  every request is rejected it returns null instead of the stored row.
\<close>

theorem createProfile_check_rejected_counterexample:
  "find (\<lambda>p. pid p = ''u1'') (tbl_profiles demo_reject_first) = Some alice \<and>
   trace (snd (snd (exec (createProfile ''u1'' ''alice@example.org'' Admin)
                      (initial_coordinator, demo_reject_first)))) =
     [SelectProfilesEqId ''u1'', InsertProfile ''u1'' ''alice@example.org'' Admin,
      SelectProfilesEqId ''u1''] \<and>
   find (\<lambda>p. pid p = ''u1'') (tbl_profiles demo_reject_all) = Some alice \<and>
   fst (exec (createProfile ''u1'' ''alice@example.org'' Admin)
          (initial_coordinator, demo_reject_all)) = None"
  by (simp add: createProfile_def exec_await getProfile_eq insert_profile_eq
        demo_reject_first_def demo_reject_all_def demo_def alice_def bob_def
        unique_violation_def)

section \<open>Properties of ticket and message creation\<close>

lemma insert_ticket_eq:
  "insert_ticket subj cust prio cat st w =
     (case faults w (length (trace w)) of
        Some e \<Rightarrow> (Inl e, w\<lparr>trace := trace w @ [InsertTicket subj cust prio cat st]\<rparr>)
      | None \<Rightarrow>
          (Inr (new_ticket (new_ids w (length (trace w))) subj cust prio cat st (clock w)),
           w\<lparr>trace := trace w @ [InsertTicket subj cust prio cat st],
             tbl_tickets := tbl_tickets w @
               [new_ticket (new_ids w (length (trace w))) subj cust prio cat st (clock w)]\<rparr>))"
  by (simp add: insert_ticket_def call_def Let_def split: option.splits)

lemma insert_message_eq:
  "insert_message t s c w =
     (case faults w (length (trace w)) of
        Some e \<Rightarrow> (Inl e, w\<lparr>trace := trace w @ [InsertMessage t s c]\<rparr>)
      | None \<Rightarrow>
          (Inr (new_message (new_ids w (length (trace w))) t s c (clock w)),
           w\<lparr>trace := trace w @ [InsertMessage t s c],
             tbl_messages := tbl_messages w @
               [new_message (new_ids w (length (trace w))) t s c (clock w)]\<rparr>))"
  by (simp add: insert_message_def call_def Let_def split: option.splits)

lemma update_ticket_eq:
  "update_ticket ticketId u now w =
     (case faults w (length (trace w)) of
        Some e \<Rightarrow> (Inl e, w\<lparr>trace := trace w @ [UpdateTicket ticketId u now]\<rparr>)
      | None \<Rightarrow>
          (single (filter (\<lambda>t. tid t = ticketId)
                     (map (\<lambda>t. if tid t = ticketId then apply_updates u now t else t)
                        (tbl_tickets w))),
           w\<lparr>trace := trace w @ [UpdateTicket ticketId u now],
             tbl_tickets := map (\<lambda>t. if tid t = ticketId then apply_updates u now t else t)
                              (tbl_tickets w)\<rparr>))"
  by (simp add: update_ticket_def call_def Let_def split: option.splits)

lemma apply_no_updates: "apply_updates no_updates now t = t\<lparr>t_updated_at := now\<rparr>"
  by (simp add: apply_updates_def no_updates_def)

lemma updateTicket_trace:
  "trace (snd (updateTicket ticketId u w)) = trace w @ [UpdateTicket ticketId u (clock w)]"
  by (simp add: updateTicket_def update_ticket_eq split: option.splits sum.splits)

lemma updateTicket_tickets:
  "tbl_tickets (snd (updateTicket ticketId u w)) =
     (if faults w (length (trace w)) = None
      then map (\<lambda>t. if tid t = ticketId then apply_updates u (clock w) t else t) (tbl_tickets w)
      else tbl_tickets w)"
  by (simp add: updateTicket_def update_ticket_eq split: option.splits sum.splits)

lemma updateTicket_messages:
  "tbl_messages (snd (updateTicket ticketId u w)) = tbl_messages w"
  by (simp add: updateTicket_def update_ticket_eq split: option.splits sum.splits)

text \<open>
  Claim C4. When the ticket insert succeeds, \<^verbatim>\<open>createTicket\<close> returns the inserted ticket,
  whose status is \<open>Open\<close> whatever the arguments, and the ticket is in the table afterwards,
  whatever the backend answers to the insert of the initial message. In particular, when the
  initial message is non-empty and its insert is rejected, no message is stored, the ticket
  stays stored and the result is still the ticket.
\<close>

theorem createTicket_open_best_effort:
  assumes "faults w (length (trace w)) = None"
  shows "fst (createTicket subj cust prio cat msg w) =
           Some (new_ticket (new_ids w (length (trace w))) subj cust prio cat Open (clock w)) \<and>
         status (new_ticket (new_ids w (length (trace w))) subj cust prio cat Open (clock w)) = Open \<and>
         tbl_tickets (snd (createTicket subj cust prio cat msg w)) =
           tbl_tickets w @
             [new_ticket (new_ids w (length (trace w))) subj cust prio cat Open (clock w)] \<and>
         (truthy msg \<and> faults w (Suc (length (trace w))) \<noteq> None \<longrightarrow>
            tbl_messages (snd (createTicket subj cust prio cat msg w)) = tbl_messages w \<and>
            trace (snd (createTicket subj cust prio cat msg w)) =
              trace w @ [InsertTicket subj cust prio cat Open,
                         InsertMessage (new_ids w (length (trace w))) cust msg])"
  using assms
  by (auto simp: createTicket_def insert_ticket_eq insert_message_eq new_ticket_def
           split: option.splits)

theorem createTicket_open_best_effort_witness:
  "faults demo_reject_second (length (trace demo_reject_second)) = None \<and>
   truthy ''It is broken'' \<and>
   faults demo_reject_second (Suc (length (trace demo_reject_second))) \<noteq> None \<and>
   fst (createTicket ''Printer'' ''u1'' Low ''hardware'' ''It is broken'' demo_reject_second) =
     Some (new_ticket ''n1'' ''Printer'' ''u1'' Low ''hardware'' Open 10) \<and>
   tbl_tickets (snd (createTicket ''Printer'' ''u1'' Low ''hardware'' ''It is broken''
                       demo_reject_second)) =
     [ticket1, ticket2, new_ticket ''n1'' ''Printer'' ''u1'' Low ''hardware'' Open 10] \<and>
   tbl_messages (snd (createTicket ''Printer'' ''u1'' Low ''hardware'' ''It is broken''
                        demo_reject_second)) =
     [message1, message2, message3]"
  using createTicket_open_best_effort
    [where w = demo_reject_second and subj = "''Printer''" and cust = "''u1''" and prio = Low
       and cat = "''hardware''" and msg = "''It is broken''"]
  by (simp add: demo_reject_second_def demo_def truthy_def)

text \<open>
  Claim C5. When the message insert succeeds, \<^verbatim>\<open>createMessage\<close> returns the inserted
  message whatever the outcome of the update that follows. Its requests are exactly the
  insert and then an update of the ticket that carries no column but the current time for
  \<^verbatim>\<open>updated_at\<close>. If the update is accepted, the rows with the ticket's id have their
  \<^verbatim>\<open>updated_at\<close> refreshed and nothing else changed; if it is rejected, the tickets are
  untouched and the message is returned all the same.
\<close>

theorem createMessage_best_effort:
  assumes "faults w (length (trace w)) = None"
  shows "fst (createMessage ticketId senderId cont w) =
           Some (new_message (new_ids w (length (trace w))) ticketId senderId cont (clock w)) \<and>
         trace (snd (createMessage ticketId senderId cont w)) =
           trace w @ [InsertMessage ticketId senderId cont,
                      UpdateTicket ticketId no_updates (clock w)] \<and>
         tbl_messages (snd (createMessage ticketId senderId cont w)) =
           tbl_messages w @
             [new_message (new_ids w (length (trace w))) ticketId senderId cont (clock w)] \<and>
         tbl_tickets (snd (createMessage ticketId senderId cont w)) =
           (if faults w (Suc (length (trace w))) = None
            then map (\<lambda>t. if tid t = ticketId then t\<lparr>t_updated_at := clock w\<rparr> else t)
                   (tbl_tickets w)
            else tbl_tickets w)"
  using assms
  by (simp add: createMessage_def insert_message_eq updateTicket_trace updateTicket_tickets
        updateTicket_messages apply_no_updates case_prod_beta)

theorem createMessage_best_effort_witness:
  "faults demo_reject_second (length (trace demo_reject_second)) = None \<and>
   faults demo_reject_second (Suc (length (trace demo_reject_second))) \<noteq> None \<and>
   fst (createMessage ''t1'' ''u1'' ''Any news?'' demo_reject_second) =
     Some (new_message ''n1'' ''t1'' ''u1'' ''Any news?'' 10) \<and>
   tbl_tickets (snd (createMessage ''t1'' ''u1'' ''Any news?'' demo_reject_second)) =
     [ticket1, ticket2]"
  using createMessage_best_effort
    [where w = demo_reject_second and ticketId = "''t1''" and senderId = "''u1''"
       and cont = "''Any news?''"]
  by (simp add: demo_reject_second_def demo_def)


section \<open>Properties of the navigation effect\<close>

text \<open>
  Claim C2, as amended. Once the coordinator is initialized and not loading, the navigation
  effect is the rule stated by \<open>intent_by_prefix\<close>, a function of whether the user is
  authenticated, of the role and of the path: the public paths are the root and every path
  that begins with \<^verbatim>\<open>/register\<close> or \<^verbatim>\<open>/forgot-password\<close>, and a path falls under a role
  when it begins with \<^verbatim>\<open>/\<close> and the role's name. The three cases of the specification
  are evaluated in the witness.
\<close>

theorem navigation_by_prefix:
  assumes "isInitialized c" and "\<not> isLoading c"
  shows "navigation c hash =
           intent_by_prefix (isAuthenticated c) (userType c) (pathname_of_hash hash)"
proof (cases "userType c")
  case None
  with assms show ?thesis
    by (simp add: navigation_def intent_by_prefix_def public_path_def Let_def)
next
  case (Some r)
  with assms show ?thesis
    by (cases r)
       (auto simp: navigation_def intent_by_prefix_def public_path_def under_role_def Let_def)
qed

theorem navigation_by_prefix_witness:
  "isInitialized anonymous \<and> \<not> isLoading anonymous \<and>
   \<not> isAuthenticated anonymous \<and> userType anonymous = None \<and>
   pathname_of_hash ''#/admin'' = ''/admin'' \<and>
   navigation anonymous ''#/admin'' = Some ''/'' \<and>
   isAuthenticated (signed_in Customer) \<and> pathname_of_hash ''#/'' = ''/'' \<and>
   navigation (signed_in Customer) ''#/'' = Some ''/customer'' \<and>
   isAuthenticated (signed_in Admin) \<and> pathname_of_hash ''#/admin/settings'' = ''/admin/settings'' \<and>
   navigation (signed_in Admin) ''#/admin/settings'' = None"
  using navigation_by_prefix [of anonymous "''#/admin''"]
        navigation_by_prefix [of "signed_in Customer" "''#/''"]
        navigation_by_prefix [of "signed_in Admin" "''#/admin/settings''"]
  by (simp add: anonymous_def signed_in_def isAuthenticated_def pathname_of_hash_def truthy_def
        intent_by_prefix_def public_path_def under_role_def)

text \<open>
  Claim C2 as it is stated fails: the path \<^verbatim>\<open>/registered\<close> is neither the root nor
  \<^verbatim>\<open>/register\<close> nor \<^verbatim>\<open>/forgot-password\<close>, yet an unauthenticated visitor is not
  redirected from it, because the test on the path is \<^verbatim>\<open>startsWith('/register')\<close>.
\<close>

theorem navigation_register_prefix_counterexample:
  "isInitialized anonymous \<and> \<not> isLoading anonymous \<and> \<not> isAuthenticated anonymous \<and>
   pathname_of_hash ''#/registered'' = ''/registered'' \<and>
   ''/registered'' \<noteq> ''/'' \<and> ''/registered'' \<noteq> ''/register'' \<and>
   ''/registered'' \<noteq> ''/forgot-password'' \<and>
   navigation anonymous ''#/registered'' = None"
  by (simp add: anonymous_def isAuthenticated_def pathname_of_hash_def truthy_def navigation_def)

section \<open>Properties of the ticket list\<close>

lemma truncate_decorate [simp]: "ticket.truncate (decorate cm am mm lm t) = t"
  by (simp add: decorate_def ticket.defs enriched_ticket.defs)

lemma customer_decorate [simp]:
  "customer (decorate cm am mm lm t) = js_get cm (customer_id t)"
  by (simp add: decorate_def ticket.defs enriched_ticket.defs)

lemma customer_id_decorate [simp]: "customer_id (decorate cm am mm lm t) = customer_id t"
  by (simp add: decorate_def ticket.defs enriched_ticket.defs)

lemma select_tickets_eq:
  "select_tickets sf ow w =
     (case faults w (length (trace w)) of
        Some e \<Rightarrow> (Inl e, w\<lparr>trace := trace w @ [SelectTickets sf ow]\<rparr>)
      | None \<Rightarrow>
          (Inr (rev (sort_key t_updated_at (filter (ticket_matches sf ow) (tbl_tickets w)))),
           w\<lparr>trace := trace w @ [SelectTickets sf ow]\<rparr>))"
  by (simp add: select_tickets_def call_def Let_def split: option.splits)

lemma select_profiles_in_id_eq:
  "select_profiles_in_id ids w =
     (case faults w (length (trace w)) of
        Some e \<Rightarrow> Inl e
      | None \<Rightarrow> Inr (filter (\<lambda>p. pid p \<in> set ids) (tbl_profiles w)),
      w\<lparr>trace := trace w @ [SelectProfilesInId ids]\<rparr>)"
  by (simp add: select_profiles_in_id_def call_def Let_def split: option.splits)

lemma getTickets_result:
  "\<exists>am mm lm.
     fst (getTickets role st w) =
       (if faults w (length (trace w)) = None
        then map (decorate
                    (if faults w (Suc (length (trace w))) = None
                     then profile_map (filter (\<lambda>p. pid p \<in> customer_id ` set (fetched_tickets role st w))
                                         (tbl_profiles w))
                     else Map.empty) am mm lm)
               (fetched_tickets role st w)
        else [])"
  by (auto simp: getTickets_def select_tickets_eq select_profiles_in_id_eq Let_def
        case_prod_beta fetched_tickets_def uniq_def lookup_of_def
        split: option.splits)

lemma find_app:
  "find P (xs @ ys) = (case find P xs of None \<Rightarrow> find P ys | Some x \<Rightarrow> Some x)"
  by (induction xs) auto

lemma fold_profile_map:
  "fold (\<lambda>p m. m(pid p \<mapsto> p)) ps m0 x =
     (case find (\<lambda>p. pid p = x) (rev ps) of None \<Rightarrow> m0 x | Some p \<Rightarrow> Some p)"
  by (induction ps arbitrary: m0) (auto simp: find_app split: option.splits)

lemma profile_map_find: "profile_map ps x = find (\<lambda>p. pid p = x) (rev ps)"
  by (simp add: profile_map_def fold_profile_map split: option.splits)

lemma find_filter_none:
  "find P xs = None \<Longrightarrow> find P (filter Q xs) = None"
  by (auto simp: find_None_iff)

lemma find_rev_none: "find P (rev xs) = None \<longleftrightarrow> find P xs = None"
  by (auto simp: find_None_iff)

lemma getTickets_rows:
  "map ticket.truncate (fst (getTickets role st w)) =
     (if faults w (length (trace w)) = None then fetched_tickets role st w else [])"
proof -
  obtain am mm lm cm where
    "fst (getTickets role st w) =
       (if faults w (length (trace w)) = None
        then map (decorate cm am mm lm) (fetched_tickets role st w) else [])"
    using getTickets_result [of role st w] by blast
  then show ?thesis by (simp add: comp_def)
qed

lemma owner_filter_customer:
  "auth_user w = Some c \<Longrightarrow> c \<noteq> [] \<Longrightarrow> owner_filter (Some Customer) w = Some c"
  by (simp add: owner_filter_def truthy_def)

lemma customer_id_truncate: "customer_id (ticket.truncate t) = customer_id t"
  by (simp add: ticket.defs)

text \<open>
  Claim C3. When \<^verbatim>\<open>getTickets\<close> is called with the customer role and the current-user
  lookup yields the (non-empty) id of customer \<open>c\<close>, every ticket in the result has
  \<open>customer_id = c\<close>, for every status argument and every fault plan.
\<close>

theorem getTickets_customer_scoped:
  assumes "auth_user w = Some c" and "c \<noteq> []"
  shows "\<forall>t \<in> set (fst (getTickets (Some Customer) st w)). customer_id t = c"
proof
  fix t assume t: "t \<in> set (fst (getTickets (Some Customer) st w))"
  then have "ticket.truncate t \<in> set (map ticket.truncate (fst (getTickets (Some Customer) st w)))"
    by simp
  then have "ticket.truncate t \<in> set (fetched_tickets (Some Customer) st w)"
    by (simp add: getTickets_rows split: if_splits)
  then have "customer_id (ticket.truncate t) = c"
    using assms by (simp add: fetched_tickets_def owner_filter_customer ticket_matches_def)
  then show "customer_id t = c" by (simp add: customer_id_truncate)
qed

theorem getTickets_customer_scoped_witness:
  "auth_user demo = Some ''u1'' \<and> ''u1'' \<noteq> [] \<and>
   list_all (\<lambda>t. customer_id t = ''u1'') (fst (getTickets (Some Customer) None demo)) \<and>
   map ticket.truncate (fst (getTickets (Some Customer) None demo)) = [ticket1]"
proof -
  have u: "auth_user demo = Some ''u1''" by (simp add: demo_def)
  have ne: "''u1'' \<noteq> []" by simp
  have rows: "map ticket.truncate (fst (getTickets (Some Customer) None demo)) = [ticket1]"
    by (simp add: getTickets_rows fetched_tickets_def owner_filter_def status_filter_def
          ticket_matches_def truthy_def demo_def ticket1_def ticket2_def)
  from getTickets_customer_scoped [OF u ne, of None] u rows show ?thesis
    by (simp add: list_all_iff)
qed





lemma owner_filter_no_user: "auth_user w = None \<Longrightarrow> owner_filter role w = None"
  by (simp add: owner_filter_def)

text \<open>
  Claim C9. When the current-user lookup yields no user id, \<^verbatim>\<open>getTickets\<close> with the
  customer role does exactly what it does with the admin role: no owner filter is added, and
  if the list query is answered the result is every ticket that passes the status filter,
  whoever owns it.
\<close>

theorem getTickets_no_user_unscoped:
  assumes "auth_user w = None"
  shows "getTickets (Some Customer) st w = getTickets (Some Admin) st w \<and>
         (faults w (length (trace w)) = None \<longrightarrow>
            map ticket.truncate (fst (getTickets (Some Customer) st w)) =
              rev (sort_key t_updated_at
                     (filter (ticket_matches (status_filter st) None) (tbl_tickets w))))"
  using assms
  by (simp add: getTickets_rows fetched_tickets_def owner_filter_no_user)
     (simp add: getTickets_def owner_filter_no_user)

theorem getTickets_no_user_unscoped_witness:
  "auth_user demo_no_user = None \<and>
   faults demo_no_user (length (trace demo_no_user)) = None \<and>
   map ticket.truncate (fst (getTickets (Some Customer) None demo_no_user)) = [ticket2, ticket1] \<and>
   customer_id ticket2 = ''u2'' \<and> customer_id ticket1 = ''u1''"
proof -
  have u: "auth_user demo_no_user = None" by (simp add: demo_no_user_def demo_def)
  have f0: "faults demo_no_user (length (trace demo_no_user)) = None"
    by (simp add: demo_no_user_def demo_def)
  have rows: "rev (sort_key t_updated_at
                (filter (ticket_matches (status_filter None) None) (tbl_tickets demo_no_user))) =
              [ticket2, ticket1]"
    by (simp add: status_filter_def ticket_matches_def demo_no_user_def demo_def
          ticket1_def ticket2_def)
  from getTickets_no_user_unscoped [OF u, of None]
  have "faults demo_no_user (length (trace demo_no_user)) = None \<longrightarrow>
          map ticket.truncate (fst (getTickets (Some Customer) None demo_no_user)) =
            rev (sort_key t_updated_at
                   (filter (ticket_matches (status_filter None) None) (tbl_tickets demo_no_user)))"
    by (rule conjunct2)
  with f0 rows
  have "map ticket.truncate (fst (getTickets (Some Customer) None demo_no_user)) =
          [ticket2, ticket1]"
    by simp
  with u f0 show ?thesis by (simp add: ticket1_def ticket2_def)
qed

section \<open>Properties of the ticket view\<close>

lemma truncate_enrich [simp]: "message.truncate (enrich_message sp ab m) = m"
  by (simp add: enrich_message_def message.defs enriched_message.defs)

lemma m_created_at_enrich [simp]: "m_created_at (enrich_message sp ab m) = m_created_at m"
  by (simp add: enrich_message_def message.defs enriched_message.defs)

lemma select_ticket_single_eq:
  "select_ticket_single ticketId w =
     (case faults w (length (trace w)) of
        Some e \<Rightarrow> Inl e
      | None \<Rightarrow> single (filter (\<lambda>t. tid t = ticketId) (tbl_tickets w)),
      w\<lparr>trace := trace w @ [SelectTicketSingle ticketId]\<rparr>)"
  by (simp add: select_ticket_single_def call_def Let_def split: option.splits)

lemma select_profile_single_snd:
  "snd (select_profile_single uid w) = w\<lparr>trace := trace w @ [SelectProfileSingle uid]\<rparr>"
  by (simp add: select_profile_single_def call_def Let_def split: option.splits)

lemma fetch_assigned_snd:
  "snd (fetch_assigned t w) =
     (case assigned_id t of
        None \<Rightarrow> w
      | Some a \<Rightarrow> w\<lparr>trace := trace w @ [SelectProfileSingle a]\<rparr>)"
  by (simp add: fetch_assigned_def select_profile_single_def call_def Let_def
           split: option.splits sum.splits)

lemma select_messages_of_eq:
  "select_messages_of ticketId w =
     (case faults w (length (trace w)) of
        Some e \<Rightarrow> Inl e
      | None \<Rightarrow> Inr (sort_key m_created_at
                       (filter (\<lambda>m. ticket_id m = ticketId) (tbl_messages w))),
      w\<lparr>trace := trace w @ [SelectMessagesOf ticketId]\<rparr>)"
  by (simp add: select_messages_of_def call_def Let_def split: option.splits)

lemma fetch_senders_snd:
  "snd (fetch_senders ms w) =
     (if ms \<noteq> [] then w\<lparr>trace := trace w @ [SelectProfilesInId (uniq (map sender_id ms))]\<rparr>
      else w)"
  by (simp add: fetch_senders_def select_profiles_in_id_def call_def Let_def
           split: option.splits)

lemma fetch_attachments_fst:
  "fst (fetch_attachments ms w) =
     (if ms \<noteq> [] \<and> faults w (length (trace w)) = None
      then group_attachments
             (filter (\<lambda>a. message_id a \<in> set (map mid ms)) (tbl_attachments w))
      else Inr Map.empty)"
  by (simp add: fetch_attachments_def select_attachments_in_def call_def Let_def
           split: option.splits)


lemma group_succeeds:
  "\<forall>a \<in> set as. message_id a \<notin> set object_prototype_members \<Longrightarrow>
   \<exists>m'. group_attachments_from as m = Inr m'"
  by (induction as arbitrary: m) (auto split: option.splits)

lemma messages_extend [simp]:
  "messages (ticket.extend t (enriched_ticket.fields c a ms u lm mc)) = ms"
  by (simp add: ticket.defs enriched_ticket.defs)

lemma getTicket_fst:
  assumes "faults w (length (trace w)) = None"
    and "filter (\<lambda>t. tid t = ticketId) (tbl_tickets w) = [t]"
    and "faults w (length (trace w) + 2 + (if assigned_id t = None then 0 else 1)) = None"
  shows "map_option (\<lambda>et. map message.truncate (messages et)) (fst (getTicket ticketId w)) =
           (case (if fetched_messages ticketId w \<noteq> [] \<and>
                     faults w (length (trace w) + 4 + (if assigned_id t = None then 0 else 1))
                       = None
                  then group_attachments
                         (filter (\<lambda>a. message_id a \<in> set (map mid (fetched_messages ticketId w)))
                            (tbl_attachments w))
                  else Inr Map.empty) of
              Inl thrown \<Rightarrow> None
            | Inr ab \<Rightarrow> Some (fetched_messages ticketId w))"
proof (cases "assigned_id t")
  case None
  with assms show ?thesis
    by (simp add: getTicket_def select_ticket_single_eq case_prod_beta Let_def
          select_profile_single_snd fetch_assigned_snd select_messages_of_eq fetch_senders_snd
          fetch_attachments_fst fetched_messages_def comp_def eval_nat_numeral
          split: sum.splits)
next
  case (Some a)
  with assms show ?thesis
    by (simp add: getTicket_def select_ticket_single_eq case_prod_beta Let_def
          select_profile_single_snd fetch_assigned_snd select_messages_of_eq fetch_senders_snd
          fetch_attachments_fst fetched_messages_def comp_def eval_nat_numeral
          split: sum.splits)
qed



text \<open>
  Where no attachment belongs to a message id that names a member of
  \<^verbatim>\<open>Object.prototype\<close>, the messages of the result, with the joined fields taken off, are
  the backend's messages of the ticket sorted by \<^verbatim>\<open>created_at\<close>.
\<close>

lemma getTicket_messages_sorted_exact:
  assumes "faults w (length (trace w)) = None"
    and "filter (\<lambda>t. tid t = ticketId) (tbl_tickets w) = [t]"
    and "faults w (length (trace w) + 2 + (if assigned_id t = None then 0 else 1)) = None"
    and "\<forall>att \<in> set (tbl_attachments w). message_id att \<notin> set object_prototype_members"
  shows "\<exists>et. fst (getTicket ticketId w) = Some et \<and>
           map message.truncate (messages et) =
             sort_key m_created_at (filter (\<lambda>m. ticket_id m = ticketId) (tbl_messages w)) \<and>
           sorted (map m_created_at (messages et)) \<and>
           set (map message.truncate (messages et)) =
             {m \<in> set (tbl_messages w). ticket_id m = ticketId}"
proof -
  let ?ms = "fetched_messages ticketId w"
  let ?as = "filter (\<lambda>a. message_id a \<in> set (map mid ?ms)) (tbl_attachments w)"
  from assms(4) have "\<forall>a \<in> set ?as. message_id a \<notin> set object_prototype_members" by simp
  then obtain ab where "group_attachments ?as = Inr ab"
    unfolding group_attachments_def using group_succeeds by blast
  with getTicket_fst [OF assms(1-3)]
  have "map_option (\<lambda>et. map message.truncate (messages et)) (fst (getTicket ticketId w)) =
          Some ?ms"
    by simp
  then obtain et where et: "fst (getTicket ticketId w) = Some et"
    and 1: "map message.truncate (messages et) = ?ms"
    by auto
  have "map m_created_at (messages et) = map m_created_at (map message.truncate (messages et))"
    by (simp add: message.defs)
  then have 2: "sorted (map m_created_at (messages et))"
    unfolding 1 by (simp add: fetched_messages_def)
  have 3: "set (map message.truncate (messages et)) =
             {m \<in> set (tbl_messages w). ticket_id m = ticketId}"
    unfolding 1 by (auto simp: fetched_messages_def)
  from 1 have m1: "map message.truncate (messages et) =
             sort_key m_created_at (filter (\<lambda>m. ticket_id m = ticketId) (tbl_messages w))"
    by (simp add: fetched_messages_def)
  from et m1 2 3 show ?thesis by blast
qed

section \<open>Properties of profile resolution\<close>

lemma await_call_await:
  "await_call (await request k) k2 = await request (\<lambda>r. await_call (k r) k2)"
  unfolding await_def
  by (simp, rule ext) (auto split: prod.splits)

lemma settle_await: "settle (await request k) s = (await request k, s)"
  by (simp add: await_def)

lemma fetchOrCreateProfile_truthy:
  "truthy em \<Longrightarrow>
   fetchOrCreateProfile uid (Some em) = delay (residual uid em FetchProfile)"
  by (simp add: fetchOrCreateProfile_def after_create_def cong: option.case_cong)

lemma createProfile_call:
  "await_call (createProfile uid em ut) k =
     await (getProfile uid) (\<lambda>existingProfile.
       case existingProfile of
         Some p \<Rightarrow> k (Some p)
       | None \<Rightarrow>
           await (insert_profile uid em ut) (\<lambda>r.
             await_call
               (case r of
                  Inl e \<Rightarrow>
                    if error_code e = ''23505'' then await (getProfile uid) Return
                    else Return None
                | Inr data \<Rightarrow> Return data)
               k))"
  unfolding createProfile_def await_call_await
  by (rule arg_cong [where f = "await (getProfile uid)"], rule ext)
     (simp add: await_call_await split: option.splits)

lemma step_residual:
  assumes "truthy em"
  shows "step (residual uid em g) (c, w) =
           (case stage_step uid em g (c, w) of (g', s') \<Rightarrow> (residual uid em g', s'))"
proof (cases g)
  case Waiting
  then show ?thesis
    by (simp add: fetchOrCreateProfile_truthy [OF assms] step_delay settle_await)
next
  case FetchProfile
  then show ?thesis
    by (simp add: step_await getProfile_eq createProfile_call settle_await
             split: option.splits)
next
  case CreateCheck
  then show ?thesis
    by (simp add: createProfile_call step_await getProfile_eq after_create_def settle_await
             split: option.splits)
next
  case CreateInsert
  then show ?thesis
    by (auto simp: step_await insert_profile_eq after_create_def await_call_await settle_await
                   unique_violation_def
             split: option.splits)
next
  case CreateRefetch
  then show ?thesis
    by (simp add: step_await getProfile_eq after_create_def settle_await
             split: option.splits)
next
  case RetryFetch
  then show ?thesis
    by (simp add: step_await getProfile_eq after_create_def settle_await
             split: option.splits)
next
  case (Returned x)
  then show ?thesis by simp
qed

lemma find_rows: "find (\<lambda>p. pid p = uid) (tbl_profiles w) =
   (case rows_of uid w of [] \<Rightarrow> None | p # _ \<Rightarrow> Some p)"
  by (simp add: rows_of_def find_as_filter)

lemma rank_step: "rank (fst (stage_step uid em g (c, w))) \<le> rank g - 1"
  by (cases g)
     (auto simp: getProfile_eq insert_profile_eq split: option.splits if_splits)

lemma on_track_mono:
  "on_track strict uid p0 w g \<Longrightarrow> (rows_of uid w = [p0] \<longrightarrow> rows_of uid w' = [p0]) \<Longrightarrow>
   on_track strict uid p0 w' g"
  by (cases g) auto

lemma stage_step_inv:
  assumes "strict \<longrightarrow> (\<forall>k. faults w k = None)"
    and "p0 = new_profile uid em Customer (clock w)"
    and "rows_of uid w = [] \<or> rows_of uid w = [p0]"
    and "on_track strict uid p0 w g"
    and "stage_step uid em g (c, w) = (g', c', w')"
  shows "faults w' = faults w \<and> clock w' = clock w \<and>
         (rows_of uid w' = [] \<or> rows_of uid w' = [p0]) \<and>
         (rows_of uid w = [p0] \<longrightarrow> rows_of uid w' = [p0]) \<and>
         on_track strict uid p0 w' g' \<and>
         (if has_profile g' \<and> \<not> has_profile g then c' = adopt p0 c else c' = c)"
proof (cases g)
  case Waiting
  with assms show ?thesis by auto
next
  case FetchProfile
  with assms show ?thesis
    by (auto simp: getProfile_eq find_rows rows_of_def split: list.splits if_splits)
next
  case CreateCheck
  with assms show ?thesis
    by (auto simp: getProfile_eq find_rows rows_of_def split: list.splits if_splits)
next
  case CreateInsert
  with assms show ?thesis
    by (auto simp: insert_profile_eq find_rows rows_of_def unique_violation_def new_profile_def
             split: list.splits if_splits option.splits)
next
  case CreateRefetch
  with assms show ?thesis
    by (auto simp: getProfile_eq find_rows rows_of_def split: list.splits if_splits)
next
  case RetryFetch
  with assms show ?thesis
    by (auto simp: getProfile_eq find_rows rows_of_def split: list.splits if_splits)
next
  case (Returned x)
  with assms show ?thesis by (cases x) auto
qed

lemma profile_adopt: "profile (adopt p c) = Some p"
  by (simp add: adopt_def)

lemma race_inv_first:
  assumes "race_inv strict uid em p0 (ga, gb, c, w)"
    and "stage_step uid em ga (c, w) = (ga', c', w')"
  shows "race_inv strict uid em p0 (ga', gb, c', w')"
proof -
  from assms(1) have f: "strict \<longrightarrow> (\<forall>k. faults w k = None)"
    and p0: "p0 = new_profile uid em Customer (clock w)"
    and rows: "rows_of uid w = [] \<or> rows_of uid w = [p0]"
    and ta: "on_track strict uid p0 w ga" and tb: "on_track strict uid p0 w gb"
    and ad: "(has_profile ga \<or> has_profile gb) \<longrightarrow> profile c = Some p0"
    by (auto simp: race_inv_def)
  note st = stage_step_inv [OF f p0 rows ta assms(2)]
  from st tb have tb': "on_track strict uid p0 w' gb"
    using on_track_mono by blast
  from st ad have "(has_profile ga' \<or> has_profile gb) \<longrightarrow> profile c' = Some p0"
    by (auto simp: profile_adopt split: if_splits)
  with st tb' p0 f show ?thesis by (simp add: race_inv_def)
qed

lemma race_inv_second:
  assumes "race_inv strict uid em p0 (ga, gb, c, w)"
    and "stage_step uid em gb (c, w) = (gb', c', w')"
  shows "race_inv strict uid em p0 (ga, gb', c', w')"
proof -
  from assms(1) have f: "strict \<longrightarrow> (\<forall>k. faults w k = None)"
    and p0: "p0 = new_profile uid em Customer (clock w)"
    and rows: "rows_of uid w = [] \<or> rows_of uid w = [p0]"
    and ta: "on_track strict uid p0 w ga" and tb: "on_track strict uid p0 w gb"
    and ad: "(has_profile ga \<or> has_profile gb) \<longrightarrow> profile c = Some p0"
    by (auto simp: race_inv_def)
  note st = stage_step_inv [OF f p0 rows tb assms(2)]
  from st ta have ta': "on_track strict uid p0 w' ga"
    using on_track_mono by blast
  from st ad have "(has_profile ga \<or> has_profile gb') \<longrightarrow> profile c' = Some p0"
    by (auto simp: profile_adopt split: if_splits)
  with st ta' p0 f show ?thesis by (simp add: race_inv_def)
qed

lemma rank_0: "rank g = 0 \<Longrightarrow> \<exists>x. g = Returned x"
  by (cases g) auto

lemma interleave_race:
  assumes "truthy em"
  shows "race_inv strict uid em p0 (ga, gb, c, w) \<Longrightarrow>
         rank ga \<le> count_list sched True \<Longrightarrow>
         rank gb \<le> count_list sched False \<Longrightarrow>
         \<exists>xa xb c' w'.
           interleave sched (residual uid em ga, residual uid em gb, c, w) =
             (Return xa, Return xb, c', w') \<and>
           race_inv strict uid em p0 (Returned xa, Returned xb, c', w')"
proof (induction sched arbitrary: ga gb c w)
  case Nil
  then obtain xa xb where "ga = Returned xa" and "gb = Returned xb"
    using rank_0 [of ga] rank_0 [of gb] by auto
  with Nil(1) show ?case by simp
next
  case (Cons b bs)
  show ?case
  proof (cases b)
    case True
    obtain ga' c' w' where st: "stage_step uid em ga (c, w) = (ga', c', w')"
      by (metis prod_cases3)
    have inv': "race_inv strict uid em p0 (ga', gb, c', w')"
      by (rule race_inv_first [OF Cons.prems(1) st])
    have "rank ga' \<le> rank ga - 1"
      using rank_step [of uid em ga c w] st by simp
    with Cons.prems(2) True have ra: "rank ga' \<le> count_list bs True" by simp
    from Cons.prems(3) True have rb: "rank gb \<le> count_list bs False" by simp
    from Cons.IH [OF inv' ra rb] st True show ?thesis
      by (simp add: step_residual [OF assms])
  next
    case False
    obtain gb' c' w' where st: "stage_step uid em gb (c, w) = (gb', c', w')"
      by (metis prod_cases3)
    have inv': "race_inv strict uid em p0 (ga, gb', c', w')"
      by (rule race_inv_second [OF Cons.prems(1) st])
    have "rank gb' \<le> rank gb - 1"
      using rank_step [of uid em gb c w] st by simp
    with Cons.prems(3) False have rb: "rank gb' \<le> count_list bs False" by simp
    from Cons.prems(2) False have ra: "rank ga \<le> count_list bs True" by simp
    from Cons.IH [OF inv' ra rb] st False show ?thesis
      by (simp add: step_residual [OF assms])
  qed
qed

lemma race_start:
  "truthy em \<Longrightarrow> fetchOrCreateProfile uid (Some em) = residual uid em Waiting"
  by simp

lemma race_run:
  "interleave race_schedule
     (fetchOrCreateProfile ''u3'' (Some ''carol@example.org''),
      fetchOrCreateProfile ''u3'' (Some ''carol@example.org''), initial_coordinator, demo) =
   (Return (Some carol), Return (Some carol), adopt carol initial_coordinator,
    demo\<lparr>trace := [SelectProfilesEqId ''u3'', SelectProfilesEqId ''u3'',
                    SelectProfilesEqId ''u3'', SelectProfilesEqId ''u3'',
                    InsertProfile ''u3'' ''carol@example.org'' Customer,
                    InsertProfile ''u3'' ''carol@example.org'' Customer,
                    SelectProfilesEqId ''u3''],
          tbl_profiles := [alice, bob, carol]\<rparr>)"
proof -
  have t: "truthy ''carol@example.org''" by (simp add: truthy_def)
  show ?thesis
    unfolding race_start [OF t] race_schedule_def
    by (simp add: step_residual [OF t] getProfile_eq insert_profile_eq demo_def alice_def
          bob_def carol_def adopt_def new_profile_def unique_violation_def
          del: residual.simps(1-6))
qed

text \<open>
  Claim C1, as amended. Two resolutions for the same new user (no profile row, a truthy
  email), interleaved in any order in which each is resumed at least six times, both
  return. Whatever the backend rejects, they never store a second row and never end with
  different profiles: each returns the customer row with the user's id or null, at most one
  row with the id is stored, and if one of them returns the row then it is stored and is
  the coordinator's profile. If the backend rejects no request but the conflicting insert,
  both return the row and it is the only row with the id. Moreover, whenever the existence
  check of \<^verbatim>\<open>createProfile\<close> yields no profile and its insert reports the duplicate-key
  code, its next request is the fetch by id, and if that is answered the result is the
  stored row with the id. The result of a resolution is a profile or null: no error reaches
  the caller.
\<close>

theorem resolution_race_single_profile:
  assumes "truthy em"
    and "find (\<lambda>p. pid p = uid) (tbl_profiles w) = None"
    and "6 \<le> count_list sched True" and "6 \<le> count_list sched False"
  shows "(\<exists>xa xb c' w' p.
            interleave sched
                (fetchOrCreateProfile uid (Some em), fetchOrCreateProfile uid (Some em), c, w) =
              (Return xa, Return xb, c', w') \<and>
            pid p = uid \<and> user_type p = Customer \<and>
            (xa = None \<or> xa = Some p) \<and> (xb = None \<or> xb = Some p) \<and>
            (filter (\<lambda>q. pid q = uid) (tbl_profiles w') = [] \<or>
             filter (\<lambda>q. pid q = uid) (tbl_profiles w') = [p]) \<and>
            (xa = Some p \<or> xb = Some p \<longrightarrow>
               filter (\<lambda>q. pid q = uid) (tbl_profiles w') = [p] \<and> profile c' = Some p) \<and>
            ((\<forall>k. faults w k = None) \<longrightarrow>
               xa = Some p \<and> xb = Some p \<and>
               filter (\<lambda>q. pid q = uid) (tbl_profiles w') = [p] \<and> profile c' = Some p)) \<and>
         (\<forall>c2 w2 e ut.
            fst (getProfile uid w2) = None \<and>
            fst (insert_profile uid em ut (snd (getProfile uid w2))) = Inl e \<and>
            error_code e = ''23505'' \<and>
            faults w2 (Suc (Suc (length (trace w2)))) = None \<longrightarrow>
            exec (createProfile uid em ut) (c2, w2) =
              (find (\<lambda>p. pid p = uid) (tbl_profiles w2), c2,
               w2\<lparr>trace := trace w2 @
                  [SelectProfilesEqId uid, InsertProfile uid em ut, SelectProfilesEqId uid]\<rparr>))"
proof -
  let ?p0 = "new_profile uid em Customer (clock w)"
  let ?rows = "\<lambda>w'. filter (\<lambda>q. pid q = uid) (tbl_profiles w')"
  from assms(2) have r0: "rows_of uid w = []"
    by (simp add: find_rows split: list.splits)
  then have inv: "race_inv False uid em ?p0 (Waiting, Waiting, c, w)"
    by (simp add: race_inv_def)
  from interleave_race [OF assms(1) inv, of sched] assms(3,4)
  obtain xa xb c' w' where
    run: "interleave sched
            (fetchOrCreateProfile uid (Some em), fetchOrCreateProfile uid (Some em), c, w) =
          (Return xa, Return xb, c', w')"
    and fin: "race_inv False uid em ?p0 (Returned xa, Returned xb, c', w')"
    by auto
  from fin have a: "xa = None \<or> xa = Some ?p0" and b: "xb = None \<or> xb = Some ?p0"
    and rows: "?rows w' = [] \<or> ?rows w' = [?p0]"
    and some: "xa = Some ?p0 \<or> xb = Some ?p0 \<longrightarrow> ?rows w' = [?p0] \<and> profile c' = Some ?p0"
    by (auto simp: race_inv_def rows_of_def)
  have strict: "xa = Some ?p0 \<and> xb = Some ?p0 \<and> ?rows w' = [?p0] \<and> profile c' = Some ?p0"
    if nf: "\<forall>k. faults w k = None"
  proof -
    from r0 nf have "race_inv True uid em ?p0 (Waiting, Waiting, c, w)"
      by (simp add: race_inv_def)
    from interleave_race [OF assms(1) this, of sched] assms(3,4) run
    have "race_inv True uid em ?p0 (Returned xa, Returned xb, c', w')"
      by auto
    then show ?thesis by (auto simp: race_inv_def rows_of_def)
  qed
  have race: "\<exists>xa xb c' w' p.
            interleave sched
                (fetchOrCreateProfile uid (Some em), fetchOrCreateProfile uid (Some em), c, w) =
              (Return xa, Return xb, c', w') \<and>
            pid p = uid \<and> user_type p = Customer \<and>
            (xa = None \<or> xa = Some p) \<and> (xb = None \<or> xb = Some p) \<and>
            (?rows w' = [] \<or> ?rows w' = [p]) \<and>
            (xa = Some p \<or> xb = Some p \<longrightarrow> ?rows w' = [p] \<and> profile c' = Some p) \<and>
            ((\<forall>k. faults w k = None) \<longrightarrow>
               xa = Some p \<and> xb = Some p \<and> ?rows w' = [p] \<and> profile c' = Some p)"
    apply (rule exI [of _ xa], rule exI [of _ xb], rule exI [of _ c'], rule exI [of _ w'],
           rule exI [of _ ?p0])
    using run a b rows some strict by (simp add: new_profile_def)
  have conflict: "exec (createProfile uid em ut) (c2, w2) =
              (find (\<lambda>p. pid p = uid) (tbl_profiles w2), c2,
               w2\<lparr>trace := trace w2 @
                  [SelectProfilesEqId uid, InsertProfile uid em ut, SelectProfilesEqId uid]\<rparr>)"
    if "fst (getProfile uid w2) = None"
      and "fst (insert_profile uid em ut (snd (getProfile uid w2))) = Inl e"
      and "error_code e = ''23505''"
      and "faults w2 (Suc (Suc (length (trace w2)))) = None"
    for c2 w2 e ut
    using that
    by (auto simp: createProfile_def exec_await getProfile_eq insert_profile_eq
                   unique_violation_def
             split: option.splits if_splits)
  from race conflict show ?thesis by blast
qed

theorem resolution_race_single_profile_witness:
  "truthy ''carol@example.org'' \<and>
   find (\<lambda>p. pid p = ''u3'') (tbl_profiles demo) = None \<and>
   6 \<le> count_list race_schedule True \<and> 6 \<le> count_list race_schedule False \<and>
   (\<forall>k. faults demo k = None) \<and>
   (\<exists>c' w'.
      interleave race_schedule
          (fetchOrCreateProfile ''u3'' (Some ''carol@example.org''),
           fetchOrCreateProfile ''u3'' (Some ''carol@example.org''), initial_coordinator, demo) =
        (Return (Some carol), Return (Some carol), c', w') \<and>
      filter (\<lambda>q. pid q = ''u3'') (tbl_profiles w') = [carol] \<and>
      profile c' = Some carol \<and>
      trace w' = [SelectProfilesEqId ''u3'', SelectProfilesEqId ''u3'', SelectProfilesEqId ''u3'',
                  SelectProfilesEqId ''u3'', InsertProfile ''u3'' ''carol@example.org'' Customer,
                  InsertProfile ''u3'' ''carol@example.org'' Customer, SelectProfilesEqId ''u3''])"
proof -
  have h1: "truthy ''carol@example.org''" by (simp add: truthy_def)
  have h2: "find (\<lambda>p. pid p = ''u3'') (tbl_profiles demo) = None"
    by (simp add: demo_def alice_def bob_def)
  have h3: "6 \<le> count_list race_schedule True" by (simp add: race_schedule_def)
  have h4: "6 \<le> count_list race_schedule False" by (simp add: race_schedule_def)
  have h5: "\<forall>k. faults demo k = None" by (simp add: demo_def)
  from resolution_race_single_profile [OF h1 h2 h3 h4, of initial_coordinator] h5
  obtain xa xb c' w' p where
    run: "interleave race_schedule
            (fetchOrCreateProfile ''u3'' (Some ''carol@example.org''),
             fetchOrCreateProfile ''u3'' (Some ''carol@example.org''), initial_coordinator, demo) =
          (Return xa, Return xb, c', w')"
    and res: "xa = Some p" "xb = Some p"
      "filter (\<lambda>q. pid q = ''u3'') (tbl_profiles w') = [p]" "profile c' = Some p"
    by blast
  from run race_run have xa: "xa = Some carol"
    and w': "w' = demo\<lparr>trace := [SelectProfilesEqId ''u3'', SelectProfilesEqId ''u3'',
                    SelectProfilesEqId ''u3'', SelectProfilesEqId ''u3'',
                    InsertProfile ''u3'' ''carol@example.org'' Customer,
                    InsertProfile ''u3'' ''carol@example.org'' Customer,
                    SelectProfilesEqId ''u3''],
          tbl_profiles := [alice, bob, carol]\<rparr>"
    by simp_all
  from xa res have p: "p = carol" by simp
  from w' have tr: "trace w' = [SelectProfilesEqId ''u3'', SelectProfilesEqId ''u3'',
                  SelectProfilesEqId ''u3'', SelectProfilesEqId ''u3'',
                  InsertProfile ''u3'' ''carol@example.org'' Customer,
                  InsertProfile ''u3'' ''carol@example.org'' Customer, SelectProfilesEqId ''u3'']"
    by simp
  from run res p tr have "\<exists>c' w'.
      interleave race_schedule
          (fetchOrCreateProfile ''u3'' (Some ''carol@example.org''),
           fetchOrCreateProfile ''u3'' (Some ''carol@example.org''), initial_coordinator, demo) =
        (Return (Some carol), Return (Some carol), c', w') \<and>
      filter (\<lambda>q. pid q = ''u3'') (tbl_profiles w') = [carol] \<and>
      profile c' = Some carol \<and>
      trace w' = [SelectProfilesEqId ''u3'', SelectProfilesEqId ''u3'', SelectProfilesEqId ''u3'',
                  SelectProfilesEqId ''u3'', InsertProfile ''u3'' ''carol@example.org'' Customer,
                  InsertProfile ''u3'' ''carol@example.org'' Customer, SelectProfilesEqId ''u3'']"
    by blast
  with h1 h2 h3 h4 h5 show ?thesis by blast
qed

text \<open>
  Claim C1 as it is stated fails. For the new user \<^verbatim>\<open>u3\<close> the second caller's insert
  reports the uniqueness conflict; its fetch by id and its last-resort fetch are rejected,
  and it ends with no profile while the first caller ends with the stored row.
\<close>

theorem resolution_race_refetch_rejected_counterexample:
  "find (\<lambda>p. pid p = ''u3'') (tbl_profiles demo_refetch_rejected) = None \<and>
   interleave race_schedule
     (fetchOrCreateProfile ''u3'' (Some ''carol@example.org''),
      fetchOrCreateProfile ''u3'' (Some ''carol@example.org''), initial_coordinator,
      demo_refetch_rejected) =
   (Return (Some carol), Return None, adopt carol initial_coordinator,
    demo_refetch_rejected
      \<lparr>trace := [SelectProfilesEqId ''u3'', SelectProfilesEqId ''u3'',
                 SelectProfilesEqId ''u3'', SelectProfilesEqId ''u3'',
                 InsertProfile ''u3'' ''carol@example.org'' Customer,
                 InsertProfile ''u3'' ''carol@example.org'' Customer,
                 SelectProfilesEqId ''u3'', SelectProfilesEqId ''u3''],
       tbl_profiles := [alice, bob, carol]\<rparr>)"
proof -
  have t: "truthy ''carol@example.org''" by (simp add: truthy_def)
  show ?thesis
    unfolding race_start [OF t] race_schedule_def
    by (simp add: step_residual [OF t] getProfile_eq insert_profile_eq demo_refetch_rejected_def
          demo_def alice_def bob_def carol_def adopt_def new_profile_def unique_violation_def
          del: residual.simps(1-6))
qed

section \<open>Properties of the session-change subscription\<close>

lemma exec_fetchOrCreateProfile_subscriptions:
  "subscriptions (snd (snd (exec (fetchOrCreateProfile u e) (c, w)))) = subscriptions w \<and>
   unsubscribe_calls (snd (snd (exec (fetchOrCreateProfile u e) (c, w)))) = unsubscribe_calls w"
  by (simp add: fetchOrCreateProfile_def createProfile_def exec_delay exec_await
        exec_await_call getProfile_eq insert_profile_eq
      split: option.splits)

text \<open>
  Claim C7 does not hold of the code. The effect that subscribes to session changes hands
  no cleanup to the framework, so mounting and tearing down the component leaves the
  listener registered and \<^verbatim>\<open>unsubscribe\<close> is never called.
\<close>

theorem auth_subscription_never_released:
  "fst (auth_effect (c, w)) = None \<and>
   unsubscribe_calls (snd (mount_then_teardown (c, w))) = unsubscribe_calls w \<and>
   subscriptions (snd (mount_then_teardown (c, w))) = subscriptions w + 1"
  using exec_fetchOrCreateProfile_subscriptions
  by (auto simp: mount_then_teardown_def auth_effect_def initializeAuth_def Let_def
        case_prod_beta split: option.splits)

theorem auth_subscription_never_released_witness:
  "unsubscribe_calls (snd (mount_then_teardown (initial_coordinator, demo_signed_in))) = 0 \<and>
   subscriptions (snd (mount_then_teardown (initial_coordinator, demo_signed_in))) = 1"
  using auth_subscription_never_released [of initial_coordinator demo_signed_in]
  by (simp add: demo_signed_in_def demo_def)

end
